theory Spec2Isabelle
  imports Main
begin

section \<open>Tensors, storages and parameter objects\<close>

text \<open>
  The model of \<^verbatim>\<open>torch/distributed/_composable/fsdp/_fsdp_param.py\<close>.
  Python attributes whose name starts with an underscore lose it here
  (\<^verbatim>\<open>_unsharded_param\<close> is \<open>unsharded_param\<close>), since an Isabelle name
  cannot start with one.

  A tensor is a view (offset and shape, contiguous) of an untyped storage, which is a
  list of bytes held by the heap under a storage id: two tensors alias when they share
  the id. Resizing a storage keeps the id and changes the list, which is how the source
  frees and allocates the all-gather outputs. The two flags say whether the tensor's
  class defines the all-gather extension hooks, which is what \<^verbatim>\<open>hasattr\<close> asks.
\<close>

datatype dtype = float64 | float32 | float16 | bfloat16 | int8 | uint8

fun is_floating_point :: "dtype \<Rightarrow> bool" where
  "is_floating_point float64 = True"
| "is_floating_point float32 = True"
| "is_floating_point float16 = True"
| "is_floating_point bfloat16 = True"
| "is_floating_point int8 = False"
| "is_floating_point uint8 = False"

fun itemsize :: "dtype \<Rightarrow> nat" where
  "itemsize float64 = 8"
| "itemsize float32 = 4"
| "itemsize float16 = 2"
| "itemsize bfloat16 = 2"
| "itemsize int8 = 1"
| "itemsize uint8 = 1"

datatype device = Device (device_type: string) (device_index: "nat option")

text \<open>
  A device mesh, with what \<^verbatim>\<open>_mesh_resources.get_parent_mesh\<close> and
  \<^verbatim>\<open>_mesh_resources.get_parent_mesh_dim\<close> answer for it (the registry is not part of
  the file, so its answers are carried by the mesh).
\<close>

datatype mesh = Mesh (mesh_id: nat) (mesh_numel: nat)
  (get_parent_mesh: "mesh option") (get_parent_mesh_dim: "nat option")

datatype placement = Replicate | Shard nat | Partial

record tensor =
  t_storage :: nat
  t_offset :: nat
  t_size :: "nat list"
  t_dtype :: dtype
  t_device :: device
  has_fsdp_pre_all_gather :: bool
  has_fsdp_post_all_gather :: bool

record DTensorSpec =
  spec_mesh :: mesh
  spec_placements :: "placement list"
  spec_size :: "nat list"
  spec_stride :: "nat list"

text \<open>
  An \<^verbatim>\<open>nn.Parameter\<close>: the tensor it holds (for a \<^verbatim>\<open>DTensor\<close> the
  \<^verbatim>\<open>_local_tensor\<close>, with the \<^verbatim>\<open>_spec\<close> beside it) and its
  \<^verbatim>\<open>requires_grad\<close> flag. Parameter objects live in the heap under an object id, so
  that "the same object" is equality of ids.
\<close>

record Parameter =
  local_tensor :: tensor
  requires_grad :: bool
  dtensor_spec :: "DTensorSpec option"

record nn_module =
  custom_setattr :: bool
  parameters :: "string \<Rightarrow> nat option"
  setattr_calls :: nat

text \<open>
  The heap: storages, parameter objects and modules. \<open>requires_grad_calls\<close> counts the
  calls of \<^verbatim>\<open>Tensor.requires_grad_\<close>, the call the source avoids where it can.
\<close>

record world =
  storages :: "nat \<Rightarrow> nat list"
  next_storage :: nat
  params :: "nat \<Rightarrow> Parameter"
  next_param :: nat
  requires_grad_calls :: nat
  modules :: "nat \<Rightarrow> nn_module"

datatype ShardedState = SHARDED | SHARDED_POST_FORWARD | UNSHARDED

datatype message =
    ExpectsDevice device device
  | TPWithHSDP
  | SameParentMesh "mesh option" "mesh option"
  | Only1DTP "placement list"
  | AssertFailed
  | BothHooks
  | EvenSharding "nat list" nat
  | ReshardTP
  | Divisible nat nat
  | ExpectsSize "nat list" "nat list"
  | ExpectsStates "ShardedState list" ShardedState
  | NoMessage

datatype error =
    AssertionError message
  | NotImplementedError message
  | AttributeError string
  | IndexError
  | RuntimeError string
  | TypeError
  | ZeroDivisionError

record ParamModuleInfo =
  module :: nat
  param_name :: string
  shared_modules :: "nat list"
  shared_param_names :: "string list"

record ExtensionsData =
  all_gather_metadata :: "nat option"
  all_gather_input_sizes :: "nat list list"

text \<open>
  \<^verbatim>\<open>FSDPMeshInfo\<close> is declared in \<^verbatim>\<open>_fsdp_common.py\<close>; the record holds the
  attributes this file reads, and \<open>is_HSDPMeshInfo\<close> what
  \<^verbatim>\<open>isinstance(mesh_info, HSDPMeshInfo)\<close> answers.
\<close>

record FSDPMeshInfo =
  mesh :: mesh
  shard_mesh_dim :: "nat option"
  replicate_mesh_dim :: "nat option"
  shard_mesh_size :: nat
  shard_mesh_rank :: nat
  is_HSDPMeshInfo :: bool

record MixedPrecisionPolicy =
  policy_param_dtype :: "dtype option"
  policy_reduce_dtype :: "dtype option"

text \<open>
  The attributes of \<^verbatim>\<open>FSDPParam\<close>. An attribute that the constructor does not
  set is an option, \<open>None\<close> while it is unset; \<open>param_dtype\<close> and \<open>reduce_dtype\<close> are
  unset (\<open>None\<close>) until \<^verbatim>\<open>init_dtype_attrs\<close> and hold Python's \<^verbatim>\<open>None\<close> as
  \<open>Some None\<close>.
\<close>

record FSDPParam =
  module_info :: ParamModuleInfo
  mesh_info :: FSDPMeshInfo
  post_forward_mesh_info :: "FSDPMeshInfo option"
  device :: device
  is_dtensor :: bool
  tp_spec :: "DTensorSpec option"
  global_mesh :: mesh
  global_placements :: "placement list"
  global_size :: "nat list"
  global_stride :: "nat list"
  orig_size :: "nat list"
  sharded_size :: "nat list"
  contiguous_sharded_stride :: "nat list"
  padded_sharded_param_size :: "nat list"
  sharded_param_data :: tensor
  sharded_param :: nat
  sharded_state :: ShardedState
  sharded_post_forward_size :: "nat list option"
  contiguous_sharded_post_forward_stride :: "nat list option"
  orig_dtype :: "dtype option"
  param_dtype :: "dtype option option"
  reduce_dtype :: "dtype option option"
  extensions_data :: "ExtensionsData option"
  unsharded_inner_tensors :: "tensor list"
  all_gather_outputs :: "tensor list"
  unsharded_param :: "nat option"
  sharded_post_forward_param_data :: "tensor option"
  sharded_post_forward_param :: "nat option"
  param_fqn :: "string option"

record state =
  self :: FSDPParam
  world :: world

text \<open>
  What the source takes from outside: the two hooks of the tensor class (user code:
  they read and write the heap, may raise, and get the \<^verbatim>\<open>out\<close> parameter as an
  object id when it is passed), and the kernel that converts bytes between dtypes.
\<close>

record extension =
  fsdp_pre_all_gather ::
    "tensor \<Rightarrow> mesh \<Rightarrow> world \<Rightarrow> (error + tensor list \<times> nat option) \<times> world"
  fsdp_post_all_gather ::
    "tensor \<Rightarrow> tensor list \<Rightarrow> nat option \<Rightarrow> dtype \<Rightarrow> nat option \<Rightarrow> world
      \<Rightarrow> (error + (tensor \<times> tensor list) option) \<times> world"
  to_dtype_kernel :: "dtype \<Rightarrow> dtype \<Rightarrow> nat list \<Rightarrow> nat list"

section \<open>Tensor primitives\<close>

definition numel :: "tensor \<Rightarrow> nat" where
  "numel t = prod_list (t_size t)"

definition nbytes :: "tensor \<Rightarrow> nat" where
  "nbytes t = numel t * itemsize (t_dtype t)"

fun make_contiguous_strides_for :: "nat list \<Rightarrow> nat list" where
  "make_contiguous_strides_for [] = []"
| "make_contiguous_strides_for (d # ds) =
     prod_list (map (max 1) ds) # make_contiguous_strides_for ds"

definition new_storage :: "nat list \<Rightarrow> world \<Rightarrow> nat \<times> world" where
  "new_storage bytes w =
     (next_storage w,
      w\<lparr>storages := (storages w)(next_storage w := bytes),
        next_storage := Suc (next_storage w)\<rparr>)"

text \<open>The bytes a tensor views; fewer than \<open>nbytes\<close> when its storage is too short.\<close>

definition read_bytes :: "world \<Rightarrow> tensor \<Rightarrow> nat list" where
  "read_bytes w t =
     take (nbytes t) (drop (t_offset t * itemsize (t_dtype t)) (storages w (t_storage t)))"

text \<open>\<^verbatim>\<open>dst.copy_(src)\<close>, given the bytes of \<open>src\<close>: they overwrite the bytes \<open>dst\<close> views.\<close>

definition copy_bytes :: "tensor \<Rightarrow> nat list \<Rightarrow> world \<Rightarrow> world" where
  "copy_bytes dst bytes w =
     (let old = storages w (t_storage dst);
          at = t_offset dst * itemsize (t_dtype dst);
          new = take (nbytes dst) bytes
      in w\<lparr>storages := (storages w)
            (t_storage dst := take at old @ new @ drop (at + length new) old)\<rparr>)"

text \<open>\<^verbatim>\<open>t.new_zeros(shape)\<close>: dtype, device and class of \<open>t\<close>, a storage of its own.\<close>

definition new_zeros :: "tensor \<Rightarrow> nat list \<Rightarrow> world \<Rightarrow> tensor \<times> world" where
  "new_zeros t shape w =
     (let (sid, w') = new_storage (replicate (prod_list shape * itemsize (t_dtype t)) 0) w
      in (t\<lparr>t_storage := sid, t_offset := 0, t_size := shape\<rparr>, w'))"

text \<open>
  \<^verbatim>\<open>torch.empty(shape, dtype=..., device=...)\<close>: a plain tensor on a storage of its
  own. The bytes are uninitialised in the source; they are written as zeros here and no
  theorem reads them.
\<close>

definition torch_empty :: "nat list \<Rightarrow> dtype \<Rightarrow> device \<Rightarrow> world \<Rightarrow> tensor \<times> world" where
  "torch_empty shape dt dev w =
     (let (sid, w') = new_storage (replicate (prod_list shape * itemsize dt) 0) w
      in (\<lparr>t_storage = sid, t_offset = 0, t_size = shape, t_dtype = dt, t_device = dev,
           has_fsdp_pre_all_gather = False, has_fsdp_post_all_gather = False\<rparr>, w'))"

text \<open>\<^verbatim>\<open>t[:k]\<close> along dimension 0 and \<^verbatim>\<open>t.view(-1)\<close>.\<close>

definition slice_dim0 :: "tensor \<Rightarrow> nat \<Rightarrow> tensor" where
  "slice_dim0 t k = (case t_size t of [] \<Rightarrow> t | n # rest \<Rightarrow> t\<lparr>t_size := min k n # rest\<rparr>)"

definition view_flat :: "tensor \<Rightarrow> tensor" where
  "view_flat t = t\<lparr>t_size := [numel t]\<rparr>"

text \<open>
  \<^verbatim>\<open>t.view(-1, *rest)\<close>: the first dimension is inferred, which fails when the
  other dimensions do not divide the number of elements (or hold no element).
\<close>

definition view_infer :: "tensor \<Rightarrow> nat list \<Rightarrow> error + tensor" where
  "view_infer t rest =
     (let q = prod_list rest
      in if q = 0 \<or> numel t mod q \<noteq> 0 then Inl (RuntimeError ''view'')
         else Inr (t\<lparr>t_size := (numel t div q) # rest\<rparr>))"

text \<open>
  \<^verbatim>\<open>torch.as_strided(t, size, contiguous strides, storage_offset=0)\<close>: a view of the
  same storage from its start; refused when the storage is too short for it.
\<close>

definition as_strided :: "world \<Rightarrow> tensor \<Rightarrow> nat list \<Rightarrow> error + tensor" where
  "as_strided w t shape =
     (if prod_list shape * itemsize (t_dtype t) \<le> length (storages w (t_storage t))
      then Inr (t\<lparr>t_offset := 0, t_size := shape\<rparr>)
      else Inl (RuntimeError ''as_strided''))"

text \<open>\<^verbatim>\<open>t.narrow(0, start, length)\<close> of a 1-D tensor.\<close>

definition narrow :: "tensor \<Rightarrow> nat \<Rightarrow> nat \<Rightarrow> error + tensor" where
  "narrow t start len =
     (if start + len \<le> numel t
      then Inr (t\<lparr>t_offset := t_offset t + start, t_size := [len]\<rparr>)
      else Inl (RuntimeError ''narrow''))"

text \<open>\<^verbatim>\<open>t.clone()\<close>: the bytes of the view, copied into a storage of its own.\<close>

definition clone :: "tensor \<Rightarrow> world \<Rightarrow> (error + tensor) \<times> world" where
  "clone t w =
     (if length (read_bytes w t) < nbytes t then (Inl (RuntimeError ''clone''), w)
      else let (sid, w') = new_storage (read_bytes w t) w
           in (Inr (t\<lparr>t_storage := sid, t_offset := 0\<rparr>), w'))"

text \<open>\<^verbatim>\<open>storage.resize_(n)\<close>: the id stays, new bytes are uninitialised (zeros here).\<close>

definition resize_storage :: "nat \<Rightarrow> nat \<Rightarrow> world \<Rightarrow> world" where
  "resize_storage sid n w =
     w\<lparr>storages := (storages w)
         (sid := take n (storages w sid) @ replicate (n - length (storages w sid)) 0)\<rparr>"

definition alloc_storage :: "tensor \<Rightarrow> world \<Rightarrow> world" where
  "alloc_storage t w =
     (let size = numel t * itemsize (t_dtype t)
      in if length (storages w (t_storage t)) \<noteq> size then resize_storage (t_storage t) size w
         else w)"

definition free_storage :: "tensor \<Rightarrow> world \<Rightarrow> world" where
  "free_storage t w =
     (if length (storages w (t_storage t)) \<noteq> 0 then resize_storage (t_storage t) 0 w else w)"

text \<open>
  \<^verbatim>\<open>nn.Parameter(t)\<close>: a new object, requiring gradients by default, which only a
  tensor of a floating point dtype can: for another dtype the call raises
  \<^verbatim>\<open>RuntimeError\<close> and leaves the heap as it was. So every parameter object is of a
  floating point dtype, and \<^verbatim>\<open>requires_grad_\<close> on one does not raise.
\<close>

definition new_Parameter :: "tensor \<Rightarrow> DTensorSpec option \<Rightarrow> world \<Rightarrow> error + nat \<times> world" where
  "new_Parameter t sp w =
     (if \<not> is_floating_point (t_dtype t) then Inl (RuntimeError ''requires_grad'')
      else Inr (next_param w,
             w\<lparr>params := (params w)
                 (next_param w := \<lparr>local_tensor = t, requires_grad = True, dtensor_spec = sp\<rparr>),
               next_param := Suc (next_param w)\<rparr>))"

definition requires_grad_set :: "nat \<Rightarrow> bool \<Rightarrow> world \<Rightarrow> world" where
  "requires_grad_set p b w =
     w\<lparr>params := (params w)(p := (params w p)\<lparr>requires_grad := b\<rparr>),
       requires_grad_calls := Suc (requires_grad_calls w)\<rparr>"

definition set_requires_grad_if_needed :: "nat \<Rightarrow> nat \<Rightarrow> world \<Rightarrow> world" where
  "set_requires_grad_if_needed src_tensor dst_tensor w =
     (if requires_grad (params w src_tensor) \<noteq> requires_grad (params w dst_tensor)
      then requires_grad_set dst_tensor (requires_grad (params w src_tensor)) w
      else w)"

text \<open>
  \<^verbatim>\<open>unsafe_setattr_param\<close>: the fast path writes \<^verbatim>\<open>module._parameters\<close>
  when the module did not override \<^verbatim>\<open>__setattr__\<close>; the slow path calls
  \<^verbatim>\<open>setattr\<close>, that is the module's own \<^verbatim>\<open>__setattr__\<close> (counted in
  \<open>setattr_calls\<close>), taken to end in \<^verbatim>\<open>nn.Module.__setattr__\<close>, which registers
  the parameter under the name.
\<close>

definition set_parameters_entry :: "nat \<Rightarrow> string \<Rightarrow> nat \<Rightarrow> world \<Rightarrow> world" where
  "set_parameters_entry m name p w =
     w\<lparr>modules := (modules w)
         (m := (modules w m)\<lparr>parameters := (parameters (modules w m))(name := Some p)\<rparr>)\<rparr>"

definition setattr :: "nat \<Rightarrow> string \<Rightarrow> nat \<Rightarrow> world \<Rightarrow> world" where
  "setattr m name p w =
     set_parameters_entry m name p
       (w\<lparr>modules := (modules w)
           (m := (modules w m)\<lparr>setattr_calls := Suc (setattr_calls (modules w m))\<rparr>)\<rparr>)"

definition unsafe_setattr_param :: "nat \<Rightarrow> string \<Rightarrow> nat \<Rightarrow> world \<Rightarrow> world" where
  "unsafe_setattr_param m name p w =
     (if \<not> custom_setattr (modules w m) then set_parameters_entry m name p w
      else setattr m name p w)"

definition setattr_on_modules :: "ParamModuleInfo \<Rightarrow> nat \<Rightarrow> world \<Rightarrow> world" where
  "setattr_on_modules info p w =
     fold (\<lambda>(shared_module, shared_param_name). unsafe_setattr_param shared_module shared_param_name p)
       (zip (shared_modules info) (shared_param_names info))
       (unsafe_setattr_param (module info) (param_name info) p w)"

section \<open>The chunk partitioner\<close>

text \<open>
  Modelled from the spec: \<^verbatim>\<open>_chunk_with_empty\<close> and \<^verbatim>\<open>_get_dim0_chunked_size\<close>
  are functions of \<^verbatim>\<open>_fsdp_common.py\<close>, which is not among the sources. The spec
  (sections 2, 4.1 and 8) has the partitioner cut dimension 0 into \<open>W\<close> chunks of
  \<open>ceil(n / W)\<close> rows, the last chunk with rows "empty or partial", ranks beyond the rows
  getting an empty shard, the sizes summing to \<open>n\<close>; Scenario B has 10 rows over 3 ranks
  give 4, 4 and 2 rows. So chunk \<open>i\<close> holds the rows from \<open>i * c\<close> up to \<open>n\<close>, at most
  \<open>c = ceil(n / W)\<close> of them. (Section 4.1 also says that a shard taking the remainder
  has size 0 "rather than a ragged size", against Scenario B; the scenario is followed.)
  A chunk that starts beyond the rows is an empty 1-D tensor, whose trailing dimensions
  \<open>get_dim0_chunked_size\<close> restores from the unchunked size, as its call in
  \<^verbatim>\<open>_init_sharded_param\<close> has it.
\<close>

definition chunk_dim0_sizes :: "nat \<Rightarrow> nat \<Rightarrow> nat list" where
  "chunk_dim0_sizes n W =
     (let c = (n + W - 1) div W in map (\<lambda>i. min c (n - i * c)) [0..<W])"

definition chunk_with_empty :: "tensor \<Rightarrow> nat \<Rightarrow> error + tensor list" where
  "chunk_with_empty t W =
     (case t_size t of
        [] \<Rightarrow> Inl (RuntimeError ''chunk'')
      | n # rest \<Rightarrow>
          if W = 0 then Inl (RuntimeError ''chunk'')
          else Inr (map (\<lambda>i. let c = (n + W - 1) div W
                             in if n = 0 \<or> i * c < n
                                then t\<lparr>t_offset := t_offset t + i * c * prod_list rest,
                                       t_size := (chunk_dim0_sizes n W ! i) # rest\<rparr>
                                else t\<lparr>t_size := [0]\<rparr>)
                      [0..<W]))"

definition get_dim0_chunked_size :: "tensor \<Rightarrow> nat list \<Rightarrow> nat list" where
  "get_dim0_chunked_size chunk unchunked_size =
     (if numel chunk > 0 then t_size chunk else 0 # tl unchunked_size)"

section \<open>Construction\<close>

text \<open>\<^verbatim>\<open>param.size()\<close> and \<^verbatim>\<open>param.stride()\<close>: global for a \<^verbatim>\<open>DTensor\<close>.\<close>

definition param_size :: "Parameter \<Rightarrow> nat list" where
  "param_size param =
     (case dtensor_spec param of Some sp \<Rightarrow> spec_size sp | None \<Rightarrow> t_size (local_tensor param))"

definition param_stride :: "Parameter \<Rightarrow> nat list" where
  "param_stride param =
     (case dtensor_spec param of
        Some sp \<Rightarrow> spec_stride sp
      | None \<Rightarrow> make_contiguous_strides_for (t_size (local_tensor param)))"

text \<open>
  Lines 169 to 212 of \<^verbatim>\<open>_init_sharded_param\<close>: the global mesh and placements, or
  the error of the \<^verbatim>\<open>DTensor\<close> branch.
\<close>

definition global_layout :: "Parameter \<Rightarrow> FSDPMeshInfo \<Rightarrow> error + mesh \<times> placement list" where
  "global_layout param mi =
     (case dtensor_spec param of
        Some tp \<Rightarrow>
          if shard_mesh_dim mi \<noteq> Some 0 \<or> replicate_mesh_dim mi \<noteq> None
          then Inl (NotImplementedError TPWithHSDP)
          else
            (case (get_parent_mesh (mesh mi), get_parent_mesh (spec_mesh tp)) of
               (Some dp_global_mesh, Some tp_global_mesh) \<Rightarrow>
                 if dp_global_mesh \<noteq> tp_global_mesh
                 then Inl (AssertionError (SameParentMesh (Some dp_global_mesh) (Some tp_global_mesh)))
                 else if length (spec_placements tp) \<noteq> 1
                 then Inl (NotImplementedError (Only1DTP (spec_placements tp)))
                 else
                   (case (get_parent_mesh_dim (mesh mi), get_parent_mesh_dim (spec_mesh tp)) of
                      (Some global_dp_mesh_dim, Some global_tp_mesh_dim) \<Rightarrow>
                        if \<not> global_dp_mesh_dim < 2 \<or> \<not> global_tp_mesh_dim < 2 then Inl IndexError
                        else Inr (dp_global_mesh,
                               ([Replicate, Replicate][global_dp_mesh_dim := Shard 0])
                                 [global_tp_mesh_dim := hd (spec_placements tp)])
                    | _ \<Rightarrow> Inl (AssertionError AssertFailed))
             | (a, b) \<Rightarrow> Inl (AssertionError (SameParentMesh a b)))
      | None \<Rightarrow>
          Inr (mesh mi, if is_HSDPMeshInfo mi then [Replicate, Shard 0] else [Shard 0]))"

text \<open>
  \<^verbatim>\<open>to_sharded_dtensor\<close> and \<^verbatim>\<open>to_sharded_post_forward_dtensor\<close>: the shape check,
  then the \<^verbatim>\<open>DTensor\<close> spec that \<^verbatim>\<open>_from_local_no_grad\<close> attaches.
\<close>

definition to_sharded_dtensor_of ::
  "nat list \<Rightarrow> mesh \<Rightarrow> placement list \<Rightarrow> nat list \<Rightarrow> nat list \<Rightarrow> tensor \<Rightarrow> error + DTensorSpec" where
  "to_sharded_dtensor_of ssize gmesh gplacements gsize gstride t =
     (if t_size t \<noteq> ssize then Inl (AssertionError (ExpectsSize ssize (t_size t)))
      else Inr \<lparr>spec_mesh = gmesh, spec_placements = gplacements,
                spec_size = gsize, spec_stride = gstride\<rparr>)"

definition to_sharded_dtensor :: "FSDPParam \<Rightarrow> tensor \<Rightarrow> error + DTensorSpec" where
  "to_sharded_dtensor p t =
     to_sharded_dtensor_of (sharded_size p) (global_mesh p) (global_placements p)
       (global_size p) (global_stride p) t"

definition to_sharded_post_forward_dtensor :: "FSDPParam \<Rightarrow> tensor \<Rightarrow> error + DTensorSpec" where
  "to_sharded_post_forward_dtensor p t =
     (case sharded_post_forward_size p of
        None \<Rightarrow> Inl (AttributeError ''sharded_post_forward_size'')
      | Some pfsize \<Rightarrow>
          if t_size t \<noteq> pfsize then Inl (AssertionError (ExpectsSize pfsize (t_size t)))
          else
            (case post_forward_mesh_info p of
               None \<Rightarrow> Inl (AssertionError AssertFailed)
             | Some mi \<Rightarrow>
                 if \<not> is_HSDPMeshInfo mi then Inl (AssertionError AssertFailed)
                 else Inr \<lparr>spec_mesh = mesh mi, spec_placements = [Replicate, Shard 0],
                           spec_size = global_size p, spec_stride = global_stride p\<rparr>))"

text \<open>
  Lines 217 to 233 of \<^verbatim>\<open>_init_sharded_param\<close>, given this rank's chunk and chunk 0:
  the padded shard is allocated and filled, wrapped as the sharded parameter and bound to
  the modules. Both chunks have a dimension 0, so \<open>hd\<close> reads \<^verbatim>\<open>size(0)\<close>.
\<close>

definition shard_and_register ::
  "Parameter \<Rightarrow> device \<Rightarrow> ParamModuleInfo \<Rightarrow> FSDPMeshInfo \<Rightarrow> FSDPMeshInfo option
    \<Rightarrow> mesh \<times> placement list \<Rightarrow> tensor \<Rightarrow> tensor \<Rightarrow> world \<Rightarrow> (error + FSDPParam) \<times> world" where
  "shard_and_register param dev info mi pfmi layout sharded chunk0 w =
     (let param_data = local_tensor param;
          ssize = get_dim0_chunked_size sharded (t_size param_data);
          padded_sharded_size = t_size chunk0;
          (padded_sharded_param, w1) = new_zeros param_data padded_sharded_size w;
          w2 = (if numel sharded > 0
                then copy_bytes (slice_dim0 padded_sharded_param (hd (t_size sharded)))
                       (read_bytes w1 sharded) w1
                else w1);
          local = slice_dim0 padded_sharded_param (hd (t_size sharded))
      in (case to_sharded_dtensor_of ssize (fst layout) (snd layout)
                  (param_size param) (param_stride param) local of
            Inl e \<Rightarrow> (Inl e, w2)
          | Inr sp \<Rightarrow>
              (case new_Parameter local (Some sp) w2 of
                 Inl e \<Rightarrow> (Inl e, w2)
               | Inr (sharded_p, w3) \<Rightarrow>
              let w4 = requires_grad_set sharded_p (requires_grad param) w3;
                  w5 = setattr_on_modules info sharded_p w4
              in (Inr \<lparr>module_info = info,
                       mesh_info = mi,
                       post_forward_mesh_info = pfmi,
                       device = dev,
                       is_dtensor = (dtensor_spec param \<noteq> None),
                       tp_spec = dtensor_spec param,
                       global_mesh = fst layout,
                       global_placements = snd layout,
                       global_size = param_size param,
                       global_stride = param_stride param,
                       orig_size = t_size param_data,
                       sharded_size = ssize,
                       contiguous_sharded_stride = make_contiguous_strides_for ssize,
                       padded_sharded_param_size = t_size padded_sharded_param,
                       sharded_param_data = view_flat padded_sharded_param,
                       sharded_param = sharded_p,
                       sharded_state = SHARDED,
                       sharded_post_forward_size = None,
                       contiguous_sharded_post_forward_stride = None,
                       orig_dtype = None,
                       param_dtype = None,
                       reduce_dtype = None,
                       extensions_data = None,
                       unsharded_inner_tensors = [],
                       all_gather_outputs = [],
                       unsharded_param = None,
                       sharded_post_forward_param_data = None,
                       sharded_post_forward_param = None,
                       param_fqn = None\<rparr>, w5))))"

definition init_sharded_param ::
  "Parameter \<Rightarrow> device \<Rightarrow> ParamModuleInfo \<Rightarrow> FSDPMeshInfo \<Rightarrow> FSDPMeshInfo option \<Rightarrow> world
    \<Rightarrow> (error + FSDPParam) \<times> world" where
  "init_sharded_param param dev info mi pfmi w =
     (if t_device (local_tensor param) \<noteq> dev \<and> device_type (t_device (local_tensor param)) \<noteq> ''meta''
      then (Inl (AssertionError (ExpectsDevice dev (t_device (local_tensor param)))), w)
      else
        (case global_layout param mi of
           Inl e \<Rightarrow> (Inl e, w)
         | Inr layout \<Rightarrow>
             let shard_rank = shard_mesh_rank mi;
                 shard_world_size = shard_mesh_size mi
             in (case chunk_with_empty (local_tensor param) shard_world_size of
                   Inl e \<Rightarrow> (Inl e, w)
                 | Inr chunks \<Rightarrow>
                     if \<not> shard_rank < length chunks then (Inl IndexError, w)
                     else shard_and_register param dev info mi pfmi layout
                            (chunks ! shard_rank) (chunks ! 0) w)))"

definition init_sharded_post_forward_param_metadata :: "Parameter \<Rightarrow> FSDPParam \<Rightarrow> error + FSDPParam" where
  "init_sharded_post_forward_param_metadata param p =
     (case post_forward_mesh_info p of
        None \<Rightarrow> Inl (AssertionError AssertFailed)
      | Some mi \<Rightarrow>
          let param_data = local_tensor param
          in (case chunk_with_empty param_data (shard_mesh_size mi) of
                Inl e \<Rightarrow> Inl e
              | Inr chunks \<Rightarrow>
                  if \<not> shard_mesh_rank mi < length chunks then Inl IndexError
                  else
                    let pfsize = get_dim0_chunked_size (chunks ! shard_mesh_rank mi) (t_size param_data)
                    in Inr (p\<lparr>sharded_post_forward_size := Some pfsize,
                              contiguous_sharded_post_forward_stride :=
                                Some (make_contiguous_strides_for pfsize)\<rparr>)))"

definition sharded_local_tensor :: "state \<Rightarrow> tensor" where
  "sharded_local_tensor s = local_tensor (params (world s) (sharded_param (self s)))"

definition init_extensions :: "state \<Rightarrow> error + FSDPParam" where
  "init_extensions s =
     (let inner_tensor = sharded_local_tensor s;
          has_pre = has_fsdp_pre_all_gather inner_tensor;
          has_post = has_fsdp_post_all_gather inner_tensor
      in if has_pre \<noteq> has_post then Inl (AssertionError BothHooks)
         else if has_pre then
           (if padded_sharded_param_size (self s) \<noteq> t_size (sharded_local_tensor s)
            then Inl (NotImplementedError
                       (EvenSharding (orig_size (self s)) (mesh_numel (mesh (mesh_info (self s))))))
            else Inr ((self s)\<lparr>extensions_data :=
                                  Some \<lparr>all_gather_metadata = None, all_gather_input_sizes = []\<rparr>,
                                unsharded_inner_tensors := []\<rparr>))
         else Inr ((self s)\<lparr>unsharded_inner_tensors := []\<rparr>))"

definition FSDPParam_init ::
  "Parameter \<Rightarrow> ParamModuleInfo \<Rightarrow> FSDPMeshInfo \<Rightarrow> FSDPMeshInfo option \<Rightarrow> device
    \<Rightarrow> MixedPrecisionPolicy \<Rightarrow> world \<Rightarrow> (error + FSDPParam) \<times> world" where
  "FSDPParam_init param info mi pfmi dev mp_policy w =
     (case init_sharded_param param dev info mi pfmi w of
        (Inl e, w') \<Rightarrow> (Inl e, w')
      | (Inr p, w') \<Rightarrow>
          (case (if post_forward_mesh_info p \<noteq> None
                 then init_sharded_post_forward_param_metadata param p else Inr p) of
             Inl e \<Rightarrow> (Inl e, w')
           | Inr p1 \<Rightarrow>
               (case init_extensions \<lparr>self = p1, world = w'\<rparr> of
                  Inl e \<Rightarrow> (Inl e, w')
                | Inr p2 \<Rightarrow> (Inr (p2\<lparr>all_gather_outputs := [], param_fqn := None\<rparr>), w'))))"

definition init_dtype_attrs :: "MixedPrecisionPolicy \<Rightarrow> state \<Rightarrow> state" where
  "init_dtype_attrs mp_policy s =
     (let od = t_dtype (sharded_local_tensor s);
          pd = (if policy_param_dtype mp_policy = Some od then None
                else policy_param_dtype mp_policy)
      in s\<lparr>self := (self s)\<lparr>orig_dtype := Some od, param_dtype := Some pd,
                             reduce_dtype := Some (policy_reduce_dtype mp_policy)\<rparr>\<rparr>)"

section \<open>The state machine\<close>

text \<open>
  A method takes the state and returns its result, or the error it raises, with the
  state as it is when it returns or raises.

  \<^verbatim>\<open>_raise_assert_with_print\<close> (of \<^verbatim>\<open>_fsdp_common.py\<close>) prints its message and
  raises an \<^verbatim>\<open>AssertionError\<close> that carries it.
\<close>

definition raise_assert_with_print :: "message \<Rightarrow> error" where
  "raise_assert_with_print msg = AssertionError msg"

definition assert_in_states :: "ShardedState list \<Rightarrow> state \<Rightarrow> error + unit" where
  "assert_in_states states s =
     (if sharded_state (self s) \<notin> set states
      then Inl (raise_assert_with_print (ExpectsStates states (sharded_state (self s))))
      else Inr ())"

text \<open>
  \<^verbatim>\<open>_to_dtype_if_needed\<close> (of \<^verbatim>\<open>_fsdp_common.py\<close>): the tensor itself when no
  dtype is asked for or it has the dtype already, else \<^verbatim>\<open>tensor.to(dtype)\<close>, a
  tensor on a storage of its own.
\<close>

definition to_dtype_if_needed :: "extension \<Rightarrow> tensor \<Rightarrow> dtype option \<Rightarrow> world \<Rightarrow> tensor \<times> world" where
  "to_dtype_if_needed ext t dt w =
     (case dt of
        None \<Rightarrow> (t, w)
      | Some d \<Rightarrow>
          if t_dtype t = d then (t, w)
          else let (sid, w') = new_storage (to_dtype_kernel ext (t_dtype t) d (read_bytes w t)) w
               in (t\<lparr>t_storage := sid, t_offset := 0, t_dtype := d\<rparr>, w'))"

fun torch_empty_each :: "(nat \<times> dtype) list \<Rightarrow> nat \<Rightarrow> device \<Rightarrow> world \<Rightarrow> tensor list \<times> world" where
  "torch_empty_each [] world_size dev w = ([], w)"
| "torch_empty_each ((n, dt) # rest) world_size dev w =
     (let (t, w1) = torch_empty [n * world_size] dt dev w;
          (ts, w2) = torch_empty_each rest world_size dev w1
      in (t # ts, w2))"

definition init_all_gather_outputs :: "nat list \<Rightarrow> dtype list \<Rightarrow> nat \<Rightarrow> device \<Rightarrow> state \<Rightarrow> state" where
  "init_all_gather_outputs all_gather_input_numels all_gather_input_dtypes world_size dev s =
     (if all_gather_outputs (self s) \<noteq> [] then s
      else
        let (ts, w') = torch_empty_each (zip all_gather_input_numels all_gather_input_dtypes)
                         world_size dev (world s)
        in \<lparr>self = (self s)\<lparr>all_gather_outputs := ts\<rparr>, world = w'\<rparr>)"

fun unflatten_each :: "(tensor \<times> nat list) list \<Rightarrow> error + tensor list" where
  "unflatten_each [] = Inr []"
| "unflatten_each ((t, sz) # rest) =
     (case view_infer t (tl sz) of
        Inl e \<Rightarrow> Inl e
      | Inr v \<Rightarrow> (case unflatten_each rest of Inl e \<Rightarrow> Inl e | Inr vs \<Rightarrow> Inr (v # vs)))"

definition unflatten_all_gather_outputs :: "state \<Rightarrow> error + tensor list" where
  "unflatten_all_gather_outputs s =
     (case extensions_data (self s) of
        None \<Rightarrow> Inl (AttributeError ''_extensions_data'')
      | Some ed \<Rightarrow> unflatten_each (zip (all_gather_outputs (self s)) (all_gather_input_sizes ed)))"

definition clear :: "ExtensionsData \<Rightarrow> ExtensionsData" where
  "clear ed = ed\<lparr>all_gather_metadata := None, all_gather_input_sizes := []\<rparr>"

text \<open>\<^verbatim>\<open>self.param_dtype or self.orig_dtype\<close>.\<close>

definition param_dtype_or_orig_dtype :: "FSDPParam \<Rightarrow> error + dtype" where
  "param_dtype_or_orig_dtype p =
     (case param_dtype p of
        None \<Rightarrow> Inl (AttributeError ''param_dtype'')
      | Some (Some d) \<Rightarrow> Inr d
      | Some None \<Rightarrow>
          (case orig_dtype p of None \<Rightarrow> Inl (AttributeError ''orig_dtype'') | Some d \<Rightarrow> Inr d))"

definition init_unsharded_param :: "extension \<Rightarrow> state \<Rightarrow> (error + unit) \<times> state" where
  "init_unsharded_param ext s =
     (case unsharded_param (self s) of
        Some out \<Rightarrow>
          let inner_tensor = sharded_local_tensor s
          in if \<not> has_fsdp_post_all_gather inner_tensor then (Inr (), s)
             else
               let s1 = s\<lparr>world := fold alloc_storage (unsharded_inner_tensors (self s)) (world s)\<rparr>
               in (case unflatten_all_gather_outputs s1 of
                     Inl e \<Rightarrow> (Inl e, s1)
                   | Inr outputs \<Rightarrow>
                       (case extensions_data (self s1) of
                          None \<Rightarrow> (Inl (AttributeError ''_extensions_data''), s1)
                        | Some ed \<Rightarrow>
                            (case param_dtype_or_orig_dtype (self s1) of
                               Inl e \<Rightarrow> (Inl e, s1)
                             | Inr dt \<Rightarrow>
                                 (case fsdp_post_all_gather ext inner_tensor outputs
                                         (all_gather_metadata ed) dt (Some out) (world s1) of
                                    (Inl e, w2) \<Rightarrow> (Inl e, s1\<lparr>world := w2\<rparr>)
                                  | (Inr _, w2) \<Rightarrow>
                                      (Inr (), \<lparr>self = (self s1)\<lparr>extensions_data := Some (clear ed)\<rparr>,
                                                world = w2\<rparr>)))))
      | None \<Rightarrow>
          let inner_tensor = sharded_local_tensor s
          in (case
                (if has_fsdp_post_all_gather inner_tensor then
                   (case unflatten_all_gather_outputs s of
                      Inl e \<Rightarrow> (Inl e, s)
                    | Inr outputs \<Rightarrow>
                        (case extensions_data (self s) of
                           None \<Rightarrow> (Inl (AttributeError ''_extensions_data''), s)
                         | Some ed \<Rightarrow>
                             (case param_dtype_or_orig_dtype (self s) of
                                Inl e \<Rightarrow> (Inl e, s)
                              | Inr dt \<Rightarrow>
                                  (case fsdp_post_all_gather ext inner_tensor outputs
                                          (all_gather_metadata ed) dt None (world s) of
                                     (Inl e, w1) \<Rightarrow> (Inl e, s\<lparr>world := w1\<rparr>)
                                   | (Inr None, w1) \<Rightarrow> (Inl TypeError, s\<lparr>world := w1\<rparr>)
                                   | (Inr (Some (unsharded_tensor, inner_tensors)), w1) \<Rightarrow>
                                       (Inr unsharded_tensor,
                                        \<lparr>self = (self s)\<lparr>unsharded_inner_tensors := inner_tensors,
                                                         extensions_data := Some (clear ed)\<rparr>,
                                         world = w1\<rparr>)))))
                 else
                   (case all_gather_outputs (self s) of
                      [unsharded_tensor] \<Rightarrow> (Inr unsharded_tensor, s)
                    | _ \<Rightarrow> (Inl (AssertionError AssertFailed), s))) of
                (Inl e, s1) \<Rightarrow> (Inl e, s1)
              | (Inr unsharded_tensor, s1) \<Rightarrow>
                  (case as_strided (world s1) unsharded_tensor (orig_size (self s1)) of
                     Inl e \<Rightarrow> (Inl e, s1)
                   | Inr view \<Rightarrow>
                       (case (if is_dtensor (self s1) then
                                (case tp_spec (self s1) of
                                   None \<Rightarrow> Inl (AttributeError ''_tp_spec'')
                                 | Some tp \<Rightarrow>
                                     Inr (Some \<lparr>spec_mesh = spec_mesh tp,
                                                spec_placements = spec_placements tp,
                                                spec_size = global_size (self s1),
                                                spec_stride = global_stride (self s1)\<rparr>))
                              else Inr None) of
                          Inl e \<Rightarrow> (Inl e, s1)
                        | Inr sp \<Rightarrow>
                            (case new_Parameter view sp (world s1) of
                               Inl e \<Rightarrow> (Inl e, s1)
                             | Inr (u, w2) \<Rightarrow>
                                 let w3 = requires_grad_set u
                                            (requires_grad (params w2 (sharded_param (self s1)))) w2
                                 in (Inr (), \<lparr>self = (self s1)\<lparr>unsharded_param := Some u\<rparr>,
                                              world = w3\<rparr>))))))"

definition free_unsharded_param :: "state \<Rightarrow> state" where
  "free_unsharded_param s =
     s\<lparr>world := fold free_storage
                   (all_gather_outputs (self s) @ unsharded_inner_tensors (self s)) (world s)\<rparr>"

definition alloc_all_gather_outputs :: "state \<Rightarrow> state" where
  "alloc_all_gather_outputs s =
     s\<lparr>world := fold alloc_storage (all_gather_outputs (self s)) (world s)\<rparr>"

definition to_sharded :: "state \<Rightarrow> state" where
  "to_sharded s =
     (let s1 = s\<lparr>world := setattr_on_modules (module_info (self s)) (sharded_param (self s)) (world s)\<rparr>;
          s2 = free_unsharded_param s1
      in s2\<lparr>self := (self s2)\<lparr>sharded_state := SHARDED\<rparr>\<rparr>)"

definition to_sharded_post_forward :: "state \<Rightarrow> (error + unit) \<times> state" where
  "to_sharded_post_forward s =
     (if is_dtensor (self s) then (Inl (NotImplementedError ReshardTP), s)
      else
        (case assert_in_states [UNSHARDED] s of
           Inl e \<Rightarrow> (Inl e, s)
         | Inr _ \<Rightarrow>
             (case post_forward_mesh_info (self s) of
                None \<Rightarrow> (Inl (AssertionError AssertFailed), s)
              | Some pfmi \<Rightarrow>
                  (case all_gather_outputs (self s) of
                     [output] \<Rightarrow>
                       let shard_world_size = shard_mesh_size pfmi;
                           n = numel output
                       in if shard_world_size = 0 then (Inl ZeroDivisionError, s)
                          else if n mod shard_world_size \<noteq> 0
                          then (Inl (raise_assert_with_print (Divisible n shard_world_size)), s)
                          else
                            let shard_rank = shard_mesh_rank pfmi;
                                sharded_numel = n div shard_world_size
                            in (case narrow output (sharded_numel * shard_rank) sharded_numel of
                                  Inl e \<Rightarrow> (Inl e, s)
                                | Inr piece \<Rightarrow>
                                    (case clone piece (world s) of
                                       (Inl e, w1) \<Rightarrow> (Inl e, s\<lparr>world := w1\<rparr>)
                                     | (Inr data, w1) \<Rightarrow>
                                         let s1 = \<lparr>self = (self s)\<lparr>sharded_post_forward_param_data := Some data\<rparr>,
                                                   world = w1\<rparr>
                                         in (case sharded_post_forward_size (self s1) of
                                               None \<Rightarrow> (Inl (AttributeError ''sharded_post_forward_size''), s1)
                                             | Some pfsize \<Rightarrow>
                                                 (case as_strided (world s1) data pfsize of
                                                    Inl e \<Rightarrow> (Inl e, s1)
                                                  | Inr sharded_post_forward_tensor \<Rightarrow>
                                                      (case to_sharded_post_forward_dtensor (self s1)
                                                              sharded_post_forward_tensor of
                                                         Inl e \<Rightarrow> (Inl e, s1)
                                                       | Inr sp \<Rightarrow>
                                                           (case new_Parameter sharded_post_forward_tensor
                                                                   (Some sp) (world s1) of
                                                              Inl e \<Rightarrow> (Inl e, s1)
                                                            | Inr (pf, w2) \<Rightarrow>
                                                           let w3 = setattr_on_modules (module_info (self s1)) pf w2;
                                                               s2 = free_unsharded_param
                                                                      \<lparr>self = (self s1)\<lparr>sharded_post_forward_param := Some pf\<rparr>,
                                                                       world = w3\<rparr>
                                                           in (Inr (), s2\<lparr>self := (self s2)
                                                                 \<lparr>sharded_state := SHARDED_POST_FORWARD\<rparr>\<rparr>)))))))
                   | _ \<Rightarrow> (Inl (AssertionError AssertFailed), s)))))"

definition to_unsharded :: "state \<Rightarrow> (error + unit) \<times> state" where
  "to_unsharded s =
     (case unsharded_param (self s) of
        None \<Rightarrow> (Inl (AttributeError ''_unsharded_param''), s)
      | Some u \<Rightarrow>
          let w1 = set_requires_grad_if_needed (sharded_param (self s)) u (world s);
              w2 = setattr_on_modules (module_info (self s)) u w1;
              p1 = (if sharded_state (self s) = SHARDED_POST_FORWARD
                    then (self s)\<lparr>sharded_post_forward_param := None,
                                  sharded_post_forward_param_data := None\<rparr>
                    else self s)
          in (Inr (), \<lparr>self = p1\<lparr>sharded_state := UNSHARDED\<rparr>, world = w2\<rparr>))"

definition all_gather_inputs :: "extension \<Rightarrow> state \<Rightarrow> (error + tensor list) \<times> state" where
  "all_gather_inputs ext s =
     (case assert_in_states [SHARDED, SHARDED_POST_FORWARD] s of
        Inl e \<Rightarrow> (Inl e, s)
      | Inr _ \<Rightarrow>
          (case sharded_state (self s) of
             SHARDED \<Rightarrow>
               if has_fsdp_pre_all_gather (sharded_local_tensor s) then
                 (case fsdp_pre_all_gather ext (sharded_local_tensor s) (mesh (mesh_info (self s)))
                         (world s) of
                    (Inl e, w1) \<Rightarrow> (Inl e, s\<lparr>world := w1\<rparr>)
                  | (Inr (inputs, metadata), w1) \<Rightarrow>
                      (case extensions_data (self s) of
                         None \<Rightarrow> (Inl (AttributeError ''_extensions_data''), s\<lparr>world := w1\<rparr>)
                       | Some ed \<Rightarrow>
                           (Inr (map view_flat inputs),
                            \<lparr>self = (self s)\<lparr>extensions_data :=
                                       Some (ed\<lparr>all_gather_metadata := metadata,
                                                all_gather_input_sizes := map t_size inputs\<rparr>)\<rparr>,
                             world = w1\<rparr>)))
               else
                 (case param_dtype (self s) of
                    None \<Rightarrow> (Inl (AttributeError ''param_dtype''), s)
                  | Some pd \<Rightarrow>
                      let (t, w1) = to_dtype_if_needed ext (sharded_param_data (self s)) pd (world s)
                      in (Inr [t], s\<lparr>world := w1\<rparr>))
           | SHARDED_POST_FORWARD \<Rightarrow>
               if has_fsdp_pre_all_gather (sharded_local_tensor s)
               then (Inl (NotImplementedError NoMessage), s)
               else
                 (case sharded_post_forward_param_data (self s) of
                    None \<Rightarrow> (Inl (AttributeError ''_sharded_post_forward_param_data''), s)
                  | Some data \<Rightarrow>
                      (case param_dtype (self s) of
                         None \<Rightarrow> (Inl (AttributeError ''param_dtype''), s)
                       | Some pd \<Rightarrow>
                           let (t, w1) = to_dtype_if_needed ext data pd (world s)
                           in (Inr [t], s\<lparr>world := w1\<rparr>)))
           | UNSHARDED \<Rightarrow>
               let (t, w1) = torch_empty [0] float32 (Device ''cpu'' None) (world s)
               in (Inr [t], s\<lparr>world := w1\<rparr>)))"

section \<open>Histories of calls\<close>

text \<open>
  The methods that change a parameter, as calls; \<open>step\<close> is the state a call leaves
  (whether it returned or raised) and \<open>run\<close> a history of calls.
\<close>

datatype call =
    Init_dtype_attrs MixedPrecisionPolicy
  | Init_all_gather_outputs "nat list" "dtype list" nat device
  | Alloc_all_gather_outputs
  | Init_unsharded_param
  | To_sharded
  | To_sharded_post_forward
  | To_unsharded
  | Free_unsharded_param
  | All_gather_inputs

fun step :: "extension \<Rightarrow> call \<Rightarrow> state \<Rightarrow> state" where
  "step ext (Init_dtype_attrs mp_policy) s = init_dtype_attrs mp_policy s"
| "step ext (Init_all_gather_outputs numels dtypes world_size dev) s =
     init_all_gather_outputs numels dtypes world_size dev s"
| "step ext Alloc_all_gather_outputs s = alloc_all_gather_outputs s"
| "step ext Init_unsharded_param s = snd (init_unsharded_param ext s)"
| "step ext To_sharded s = to_sharded s"
| "step ext To_sharded_post_forward s = snd (to_sharded_post_forward s)"
| "step ext To_unsharded s = snd (to_unsharded s)"
| "step ext Free_unsharded_param s = free_unsharded_param s"
| "step ext All_gather_inputs s = snd (all_gather_inputs ext s)"

definition run :: "extension \<Rightarrow> call list \<Rightarrow> state \<Rightarrow> state" where
  "run ext calls s = fold (step ext) calls s"

section \<open>A shard that owns its storage\<close>


section \<open>Example inputs\<close>

text \<open>
  Small concrete inputs, on which the theorems below are instantiated: a heap whose
  storage 0 holds the \<open>n\<close> bytes of the original parameter, a \<^verbatim>\<open>float32\<close> parameter of a
  given shape on \<^verbatim>\<open>cuda:0\<close>, a mesh of \<open>W\<close> ranks, and a module 0 that shares its
  parameter \<^verbatim>\<open>weight\<close> with module 1 under the name \<^verbatim>\<open>w\<close>.
\<close>

definition cuda0 :: device where
  "cuda0 = Device ''cuda'' (Some 0)"

definition plain_module :: nn_module where
  "plain_module = \<lparr>custom_setattr = False, parameters = (\<lambda>_. None), setattr_calls = 0\<rparr>"

definition example_tensor :: "nat list \<Rightarrow> tensor" where
  "example_tensor shape =
     \<lparr>t_storage = 0, t_offset = 0, t_size = shape, t_dtype = float32, t_device = cuda0,
      has_fsdp_pre_all_gather = False, has_fsdp_post_all_gather = False\<rparr>"

definition example_param :: "nat list \<Rightarrow> Parameter" where
  "example_param shape =
     \<lparr>local_tensor = example_tensor shape, requires_grad = True, dtensor_spec = None\<rparr>"

definition example_world :: "nat \<Rightarrow> world" where
  "example_world n =
     \<lparr>storages = (\<lambda>_. [])(0 := replicate n 7), next_storage = 1,
      params = (\<lambda>_. example_param []), next_param = 0, requires_grad_calls = 0,
      modules = (\<lambda>_. plain_module)\<rparr>"

definition example_mesh_info :: "nat \<Rightarrow> nat \<Rightarrow> FSDPMeshInfo" where
  "example_mesh_info W r =
     \<lparr>mesh = Mesh 0 W None None, shard_mesh_dim = Some 0, replicate_mesh_dim = None,
      shard_mesh_size = W, shard_mesh_rank = r, is_HSDPMeshInfo = False\<rparr>"

definition example_module_info :: ParamModuleInfo where
  "example_module_info =
     \<lparr>module = 0, param_name = ''weight'', shared_modules = [1], shared_param_names = [''w'']\<rparr>"

definition no_policy :: MixedPrecisionPolicy where
  "no_policy = \<lparr>policy_param_dtype = None, policy_reduce_dtype = None\<rparr>"

text \<open>Variants of a parameter: on another device, of a class with hooks, as a \<^verbatim>\<open>DTensor\<close>.\<close>

definition on_device :: "device \<Rightarrow> Parameter \<Rightarrow> Parameter" where
  "on_device d q = q\<lparr>local_tensor := (local_tensor q)\<lparr>t_device := d\<rparr>\<rparr>"

definition with_hooks :: "bool \<Rightarrow> bool \<Rightarrow> Parameter \<Rightarrow> Parameter" where
  "with_hooks pre post q =
     q\<lparr>local_tensor := (local_tensor q)\<lparr>has_fsdp_pre_all_gather := pre,
                                          has_fsdp_post_all_gather := post\<rparr>\<rparr>"

definition example_global_mesh :: mesh where
  "example_global_mesh = Mesh 0 4 None None"

definition example_dtensor_param :: "nat list \<Rightarrow> Parameter" where
  "example_dtensor_param shape =
     (example_param shape)
       \<lparr>dtensor_spec := Some \<lparr>spec_mesh = Mesh 2 2 (Some example_global_mesh) (Some 1),
                               spec_placements = [Shard 1], spec_size = shape,
                               spec_stride = make_contiguous_strides_for shape\<rparr>\<rparr>"

definition example_dp_mesh_info :: "nat \<Rightarrow> nat \<Rightarrow> FSDPMeshInfo" where
  "example_dp_mesh_info W r =
     (example_mesh_info W r)\<lparr>mesh := Mesh 1 W (Some example_global_mesh) (Some 0)\<rparr>"

definition example_hsdp_mesh_info :: "nat \<Rightarrow> nat \<Rightarrow> FSDPMeshInfo" where
  "example_hsdp_mesh_info W r =
     (example_mesh_info W r)\<lparr>shard_mesh_dim := Some 1, replicate_mesh_dim := Some 0,
                              is_HSDPMeshInfo := True\<rparr>"

text \<open>
  An extension whose hooks do the least: the pre-all-gather hook hands out the local
  tensor itself, with no metadata; the post-all-gather hook returns the first output and
  no inner tensor, and writes nothing when it is given \<^verbatim>\<open>out\<close>. The dtype kernel keeps
  the bytes.
\<close>

definition example_extension :: extension where
  "example_extension =
     \<lparr>fsdp_pre_all_gather = (\<lambda>t m w. (Inr ([t], None), w)),
      fsdp_post_all_gather =
        (\<lambda>t outputs metadata dt out w.
           (Inr (case outputs of [] \<Rightarrow> None | output # _ \<Rightarrow> Some (output, [])), w)),
      to_dtype_kernel = (\<lambda>a b bytes. bytes)\<rparr>"


text \<open>The state of a freshly constructed parameter, when construction returns one.\<close>

definition constructed :: "(error + FSDPParam) \<times> world \<Rightarrow> state option" where
  "constructed r = (case r of (Inr p, w) \<Rightarrow> Some \<lparr>self = p, world = w\<rparr> | (Inl e, w) \<Rightarrow> None)"

text \<open>
  The state of the example parameter (rank 0 of 2, on \<^verbatim>\<open>cuda:0\<close>, no mixed precision)
  after a history of calls, with the example extension.
\<close>

definition example_state :: "Parameter \<Rightarrow> FSDPMeshInfo option \<Rightarrow> nat \<Rightarrow> call list \<Rightarrow> state option" where
  "example_state param pfmi n calls =
     map_option (run example_extension calls)
       (constructed (FSDPParam_init param example_module_info (example_mesh_info 2 0) pfmi cuda0
          no_policy (example_world n)))"

section \<open>The chunk sizes\<close>

lemma sum_min_steps: "sum_list (map (\<lambda>i. min c (n - i * c)) [0..<k]) = min (k * c) (n::nat)"
proof (induction k)
  case 0
  then show ?case by simp
next
  case (Suc k)
  have "min (k * c) n + min c (n - k * c) = min (c + k * c) n"
    by (cases "k * c \<le> n") (auto simp: min_def)
  with Suc show ?case by simp
qed

lemma ceil_mult_ge: "0 < W \<Longrightarrow> (n::nat) \<le> W * ((n + W - 1) div W)"
proof -
  assume W: "0 < W"
  have "n + W - 1 = W * ((n + W - 1) div W) + (n + W - 1) mod W" by simp
  moreover have "(n + W - 1) mod W < W" using W by simp
  ultimately show ?thesis by linarith
qed

lemma ceil_le_self: "0 < W \<Longrightarrow> (n + W - 1) div W \<le> (n::nat)"
proof (cases "n = 0")
  case True
  assume "0 < W" with True show ?thesis by simp
next
  case False
  assume W: "0 < W"
  have "n + W - 1 \<le> n * W"
  proof -
    obtain n' where n: "n = Suc n'" using False by (cases n) auto
    obtain W' where w: "W = Suc W'" using W by (cases W) auto
    show ?thesis unfolding n w by simp
  qed
  then have "(n + W - 1) div W \<le> (n * W) div W" by (rule div_le_mono)
  then show ?thesis using W by simp
qed

lemma chunk_dim0_sizes_length: "length (chunk_dim0_sizes n W) = W"
  by (simp add: chunk_dim0_sizes_def Let_def)

lemma chunk_dim0_sizes_nth:
  "i < W \<Longrightarrow> chunk_dim0_sizes n W ! i = min ((n + W - 1) div W) (n - i * ((n + W - 1) div W))"
  by (simp add: chunk_dim0_sizes_def Let_def)

lemma chunk_dim0_sizes_sum: "0 < W \<Longrightarrow> sum_list (chunk_dim0_sizes n W) = n"
  unfolding chunk_dim0_sizes_def Let_def sum_min_steps
  using ceil_mult_ge[of W n] by (simp add: mult.commute)

lemma chunk_dim0_sizes_first: "0 < W \<Longrightarrow> chunk_dim0_sizes n W ! 0 = (n + W - 1) div W"
  using ceil_le_self[of W n] by (simp add: chunk_dim0_sizes_nth)

lemma chunk_dim0_sizes_mono:
  "i \<le> j \<Longrightarrow> j < W \<Longrightarrow> chunk_dim0_sizes n W ! j \<le> chunk_dim0_sizes n W ! i"
proof -
  assume ij: "i \<le> j" and j: "j < W"
  let ?c = "(n + W - 1) div W"
  have "i * ?c \<le> j * ?c" using ij by (rule mult_le_mono1)
  then have "n - j * ?c \<le> n - i * ?c" by (rule diff_le_mono2)
  then show ?thesis using ij j by (simp add: chunk_dim0_sizes_nth min_def)
qed

lemma chunk_dim0_sizes_shape:
  assumes "i < W"
  shows "chunk_dim0_sizes n W ! i = (n + W - 1) div W \<or> chunk_dim0_sizes n W ! i = 0
       \<or> (i = n div ((n + W - 1) div W) \<and> chunk_dim0_sizes n W ! i = n mod ((n + W - 1) div W))"
proof -
  let ?c = "(n + W - 1) div W"
  consider "?c \<le> n - i * ?c" | "n \<le> i * ?c" | "i * ?c < n" "n - i * ?c < ?c"
    by linarith
  then show ?thesis
  proof cases
    case 1
    then show ?thesis using assms by (simp add: chunk_dim0_sizes_nth)
  next
    case 2
    then show ?thesis using assms by (simp add: chunk_dim0_sizes_nth)
  next
    case 3
    then have c: "0 < ?c" by simp
    have d: "n div ?c = i"
    proof (rule div_nat_eqI)
      show "?c * i \<le> n" using 3 by (simp add: mult.commute)
      show "n < ?c * Suc i" using 3 by (simp add: mult.commute)
    qed
    have "n mod ?c = n - (n div ?c) * ?c"
      by (simp add: minus_div_mult_eq_mod)
    then have "n mod ?c = n - i * ?c" using d by simp
    with d have "n div ?c = i" "n mod ?c = n - i * ?c" by simp_all
    then show ?thesis using assms 3 by (simp add: chunk_dim0_sizes_nth min_def)
  qed
qed

text \<open>The chunks as tensors: their number, and the shape of each.\<close>

lemma chunk_with_empty_Inr:
  assumes "chunk_with_empty t W = Inr chunks" and "t_size t = n # rest"
  shows "0 < W" and "length chunks = W"
    and "t_size (chunks ! 0) = ((n + W - 1) div W) # rest"
    and "i < W \<Longrightarrow> hd (t_size (chunks ! i)) = chunk_dim0_sizes n W ! i"
    and "i < W \<Longrightarrow> 0 < numel (chunks ! i) \<Longrightarrow> t_size (chunks ! i) = (chunk_dim0_sizes n W ! i) # rest"
proof -
  show W: "0 < W" using assms by (auto simp: chunk_with_empty_def split: if_splits)
  have chunks: "chunks = map (\<lambda>i. let c = (n + W - 1) div W
                             in if n = 0 \<or> i * c < n
                                then t\<lparr>t_offset := t_offset t + i * c * prod_list rest,
                                       t_size := (chunk_dim0_sizes n W ! i) # rest\<rparr>
                                else t\<lparr>t_size := [0]\<rparr>) [0..<W]"
    using assms W by (simp add: chunk_with_empty_def)
  show "length chunks = W" by (simp add: chunks)
  show "t_size (chunks ! 0) = ((n + W - 1) div W) # rest"
    using W by (auto simp: chunks Let_def chunk_dim0_sizes_first)
  show "hd (t_size (chunks ! i)) = chunk_dim0_sizes n W ! i" if "i < W"
    using that by (auto simp: chunks Let_def chunk_dim0_sizes_nth)
  show "t_size (chunks ! i) = (chunk_dim0_sizes n W ! i) # rest" if "i < W" "0 < numel (chunks ! i)"
    using that by (auto simp: chunks Let_def numel_def split: if_splits)
qed

lemma shard_and_register_sizes:
  assumes "shard_and_register param dev info mi pfmi layout sharded chunk0 w = (Inr p, w')"
  shows "padded_sharded_param_size p = t_size chunk0"
    and "sharded_size p = get_dim0_chunked_size sharded (t_size (local_tensor param))"
    and "sharded_size p =
           t_size (slice_dim0 ((local_tensor param)\<lparr>t_storage := next_storage w, t_offset := 0,
                      t_size := t_size chunk0\<rparr>) (hd (t_size sharded)))"
  using assms
  by (auto simp: shard_and_register_def Let_def new_zeros_def new_storage_def
      to_sharded_dtensor_of_def new_Parameter_def split: if_splits prod.splits sum.splits)

lemma init_sharded_param_sizes:
  assumes ok: "init_sharded_param param dev info mi pfmi w = (Inr p, w')"
      and size: "t_size (local_tensor param) = n # rest"
  shows "0 < shard_mesh_size mi" and "shard_mesh_rank mi < shard_mesh_size mi"
    and "padded_sharded_param_size p = ((n + shard_mesh_size mi - 1) div shard_mesh_size mi) # rest"
    and "sharded_size p = (chunk_dim0_sizes n (shard_mesh_size mi) ! shard_mesh_rank mi) # rest"
proof -
  let ?W = "shard_mesh_size mi" and ?r = "shard_mesh_rank mi"
  from ok obtain layout chunks where
    chunks: "chunk_with_empty (local_tensor param) ?W = Inr chunks" and
    rank: "?r < length chunks" and
    reg: "shard_and_register param dev info mi pfmi layout (chunks ! ?r) (chunks ! 0) w = (Inr p, w')"
    by (auto simp: init_sharded_param_def Let_def split: if_splits sum.splits)
  note c = chunk_with_empty_Inr[OF chunks size]
  show W: "0 < ?W" by (rule c(1))
  show r: "?r < ?W" using rank c(2) by simp
  show "padded_sharded_param_size p = ((n + ?W - 1) div ?W) # rest"
    using shard_and_register_sizes(1)[OF reg] c(3) by simp
  have "chunk_dim0_sizes n ?W ! ?r \<le> chunk_dim0_sizes n ?W ! 0"
    using r by (intro chunk_dim0_sizes_mono) simp_all
  then have "chunk_dim0_sizes n ?W ! ?r \<le> (n + ?W - 1) div ?W"
    using W by (simp add: chunk_dim0_sizes_first)
  then show "sharded_size p = (chunk_dim0_sizes n ?W ! ?r) # rest"
    using shard_and_register_sizes(3)[OF reg] c(3) c(4)[OF r]
    by (simp add: slice_dim0_def)
qed

text \<open>
  C2 (as amended). With \<open>c = ceil(n / W)\<close>, the \<open>W\<close> chunk sizes along dimension 0 sum
  to \<open>n\<close>, start with \<open>c\<close>, never increase, and each is \<open>c\<close> or 0 except for at most
  one partial chunk, of \<open>n mod c\<close> rows at index \<open>n div c\<close>. A constructed parameter has
  the first chunk's size as its padded sharded size, whatever its rank, and its rank's
  chunk rows (with the trailing dimensions) as its sharded size.
\<close>

theorem chunk_partition:
  assumes "0 < W"
  shows "length (chunk_dim0_sizes n W) = W
       \<and> sum_list (chunk_dim0_sizes n W) = n
       \<and> chunk_dim0_sizes n W ! 0 = (n + W - 1) div W
       \<and> (\<forall>i j. i \<le> j \<and> j < W \<longrightarrow> chunk_dim0_sizes n W ! j \<le> chunk_dim0_sizes n W ! i)
       \<and> (\<forall>i<W. chunk_dim0_sizes n W ! i = (n + W - 1) div W \<or> chunk_dim0_sizes n W ! i = 0
              \<or> (i = n div ((n + W - 1) div W)
                  \<and> chunk_dim0_sizes n W ! i = n mod ((n + W - 1) div W)))
       \<and> (init_sharded_param param dev info mi pfmi w = (Inr p, w')
            \<and> t_size (local_tensor param) = n # rest \<and> shard_mesh_size mi = W
          \<longrightarrow> padded_sharded_param_size p = ((n + W - 1) div W) # rest
            \<and> sharded_size p = (chunk_dim0_sizes n W ! shard_mesh_rank mi) # rest)"
proof (intro conjI allI impI)
  show "length (chunk_dim0_sizes n W) = W" by (rule chunk_dim0_sizes_length)
  show "sum_list (chunk_dim0_sizes n W) = n" using assms by (rule chunk_dim0_sizes_sum)
  show "chunk_dim0_sizes n W ! 0 = (n + W - 1) div W" using assms by (rule chunk_dim0_sizes_first)
  show "chunk_dim0_sizes n W ! j \<le> chunk_dim0_sizes n W ! i" if "i \<le> j \<and> j < W" for i j
    using that by (simp add: chunk_dim0_sizes_mono)
  show "chunk_dim0_sizes n W ! i = (n + W - 1) div W \<or> chunk_dim0_sizes n W ! i = 0
          \<or> (i = n div ((n + W - 1) div W) \<and> chunk_dim0_sizes n W ! i = n mod ((n + W - 1) div W))"
    if "i < W" for i
    using that by (rule chunk_dim0_sizes_shape)
  assume a: "init_sharded_param param dev info mi pfmi w = (Inr p, w')
            \<and> t_size (local_tensor param) = n # rest \<and> shard_mesh_size mi = W"
  show "padded_sharded_param_size p = ((n + W - 1) div W) # rest"
    using init_sharded_param_sizes(3)[of param dev info mi pfmi w p w' n rest] a by simp
  show "sharded_size p = (chunk_dim0_sizes n W ! shard_mesh_rank mi) # rest"
    using init_sharded_param_sizes(4)[of param dev info mi pfmi w p w' n rest] a by simp
qed

lemma example_construction_10_4:
  "case init_sharded_param (example_param [10, 4]) cuda0 example_module_info
          (example_mesh_info 3 2) None (example_world 160) of
     (Inr p, w') \<Rightarrow> True | (Inl e, w') \<Rightarrow> False"
  by code_simp

theorem chunk_partition_witness:
  "sum_list (chunk_dim0_sizes 10 3) = 10 \<and> chunk_dim0_sizes 10 3 = [4, 4, 2]
   \<and> (case init_sharded_param (example_param [10, 4]) cuda0 example_module_info
             (example_mesh_info 3 2) None (example_world 160) of
        (Inr p, w') \<Rightarrow> sharded_size p = [2, 4] \<and> padded_sharded_param_size p = [4, 4]
      | (Inl e, w') \<Rightarrow> False)"
proof -
  obtain p w' where ok:
    "init_sharded_param (example_param [10, 4]) cuda0 example_module_info
       (example_mesh_info 3 2) None (example_world 160) = (Inr p, w')"
    using example_construction_10_4 by (auto split: prod.splits sum.splits)
  have sizes: "chunk_dim0_sizes 10 3 = [4, 4, 2]"
    by (simp add: chunk_dim0_sizes_def upt_conv_Cons)
  have "sharded_size p = [2, 4] \<and> padded_sharded_param_size p = [4, 4]"
    using chunk_partition[of 3 10 "example_param [10, 4]" cuda0 example_module_info
        "example_mesh_info 3 2" None "example_world 160" p w' "[4]"] ok
    by (simp add: sizes example_param_def example_tensor_def example_mesh_info_def)
  moreover have "sum_list (chunk_dim0_sizes 10 3) = 10"
    using chunk_partition[of 3 10] by simp
  ultimately show ?thesis unfolding ok by (simp add: sizes)
qed

theorem chunk_sizes_counterexample:
  "chunk_dim0_sizes 10 3 ! 2 \<noteq> (10 + 3 - 1) div 3 \<and> chunk_dim0_sizes 10 3 ! 2 \<noteq> 0
   \<and> chunk_dim0_sizes 5 4 ! 0 \<noteq> chunk_dim0_sizes 5 4 ! 2
   \<and> (case init_sharded_param (example_param [10, 4]) cuda0 example_module_info
             (example_mesh_info 3 2) None (example_world 160) of
        (Inr p, w') \<Rightarrow> hd (sharded_size p) \<noteq> (10 + 3 - 1) div 3 \<and> hd (sharded_size p) \<noteq> 0
      | (Inl e, w') \<Rightarrow> False)"
  by code_simp

section \<open>Frame lemmas\<close>

lemma unsafe_setattr_param_frame [simp]:
  "storages (unsafe_setattr_param m name q w) = storages w"
  "next_storage (unsafe_setattr_param m name q w) = next_storage w"
  "params (unsafe_setattr_param m name q w) = params w"
  "next_param (unsafe_setattr_param m name q w) = next_param w"
  "requires_grad_calls (unsafe_setattr_param m name q w) = requires_grad_calls w"
  by (simp_all add: unsafe_setattr_param_def set_parameters_entry_def setattr_def)

lemma fold_unsafe_setattr_param_frame [simp]:
  "storages (fold (\<lambda>(m, name). unsafe_setattr_param m name q) xs w) = storages w"
  "next_storage (fold (\<lambda>(m, name). unsafe_setattr_param m name q) xs w) = next_storage w"
  "params (fold (\<lambda>(m, name). unsafe_setattr_param m name q) xs w) = params w"
  "next_param (fold (\<lambda>(m, name). unsafe_setattr_param m name q) xs w) = next_param w"
  "requires_grad_calls (fold (\<lambda>(m, name). unsafe_setattr_param m name q) xs w) = requires_grad_calls w"
  by (induction xs arbitrary: w; simp add: case_prod_beta)+

lemma setattr_on_modules_frame [simp]:
  "storages (setattr_on_modules info q w) = storages w"
  "next_storage (setattr_on_modules info q w) = next_storage w"
  "params (setattr_on_modules info q w) = params w"
  "next_param (setattr_on_modules info q w) = next_param w"
  "requires_grad_calls (setattr_on_modules info q w) = requires_grad_calls w"
  by (simp_all add: setattr_on_modules_def)

section \<open>Construction\<close>

lemma global_layout_error:
  "global_layout param mi \<noteq> Inl (AssertionError (ExpectsDevice a b))"
  by (auto simp: global_layout_def split: option.splits if_splits)

lemma chunk_with_empty_error:
  "chunk_with_empty t W \<noteq> Inl (AssertionError m)"
  by (auto simp: chunk_with_empty_def split: list.splits)

lemma shard_and_register_error:
  "fst (shard_and_register param dev info mi pfmi layout sharded chunk0 w)
     \<noteq> Inl (AssertionError (ExpectsDevice a b))"
  by (auto simp: shard_and_register_def Let_def to_sharded_dtensor_of_def new_Parameter_def
      split: prod.splits sum.splits if_splits)

lemma init_sharded_param_device_error:
  "fst (init_sharded_param param dev info mi pfmi w) = Inl (AssertionError (ExpectsDevice a b))
   \<longleftrightarrow> t_device (local_tensor param) \<noteq> dev \<and> device_type (t_device (local_tensor param)) \<noteq> ''meta''
       \<and> a = dev \<and> b = t_device (local_tensor param)"
  using global_layout_error[of param mi a b] chunk_with_empty_error[of "local_tensor param" "shard_mesh_size mi"]
    shard_and_register_error
  by (auto simp: init_sharded_param_def Let_def split: sum.splits)

lemma init_sharded_post_forward_param_metadata_error:
  "init_sharded_post_forward_param_metadata param p \<noteq> Inl (AssertionError (ExpectsDevice a b))"
  using chunk_with_empty_error
  by (auto simp: init_sharded_post_forward_param_metadata_def Let_def split: option.splits sum.splits)

lemma init_extensions_error:
  "init_extensions s \<noteq> Inl (AssertionError (ExpectsDevice a b))"
  by (auto simp: init_extensions_def Let_def)

text \<open>
  C10. Construction raises the device-mismatch error exactly when the parameter's device
  differs from the target device and is not of type \<^verbatim>\<open>meta\<close>: a \<^verbatim>\<open>meta\<close> parameter
  is never refused for its device. The error names the two devices and is raised before
  the heap is touched.
\<close>

theorem device_mismatch_exempts_meta:
  "((\<exists>a b. fst (FSDPParam_init param info mi pfmi dev mp_policy w)
             = Inl (AssertionError (ExpectsDevice a b)))
      \<longleftrightarrow> t_device (local_tensor param) \<noteq> dev
          \<and> device_type (t_device (local_tensor param)) \<noteq> ''meta'')
   \<and> (t_device (local_tensor param) \<noteq> dev \<and> device_type (t_device (local_tensor param)) \<noteq> ''meta''
        \<longrightarrow> FSDPParam_init param info mi pfmi dev mp_policy w
             = (Inl (AssertionError (ExpectsDevice dev (t_device (local_tensor param)))), w))"
proof -
  let ?cond = "t_device (local_tensor param) \<noteq> dev
          \<and> device_type (t_device (local_tensor param)) \<noteq> ''meta''"
  have later: "fst (FSDPParam_init param info mi pfmi dev mp_policy w)
                 = Inl (AssertionError (ExpectsDevice a b))
               \<longleftrightarrow> fst (init_sharded_param param dev info mi pfmi w)
                 = Inl (AssertionError (ExpectsDevice a b))" for a b
    using init_sharded_post_forward_param_metadata_error init_extensions_error
    by (auto simp: FSDPParam_init_def split: prod.splits sum.splits)
  have 1: "(\<exists>a b. fst (FSDPParam_init param info mi pfmi dev mp_policy w)
             = Inl (AssertionError (ExpectsDevice a b))) \<longleftrightarrow> ?cond"
    unfolding later init_sharded_param_device_error by blast
  have 2: "FSDPParam_init param info mi pfmi dev mp_policy w
             = (Inl (AssertionError (ExpectsDevice dev (t_device (local_tensor param)))), w)"
    if ?cond
    using that by (simp add: FSDPParam_init_def init_sharded_param_def)
  show ?thesis using 1 2 by blast
qed

theorem device_mismatch_exempts_meta_witness:
  "fst (FSDPParam_init (on_device (Device ''meta'' None) (example_param [3, 1])) example_module_info
          (example_mesh_info 2 1) None cuda0 no_policy (example_world 12))
     \<noteq> Inl (AssertionError (ExpectsDevice cuda0 (Device ''meta'' None)))
   \<and> FSDPParam_init (on_device (Device ''cpu'' None) (example_param [3, 1])) example_module_info
          (example_mesh_info 2 1) None cuda0 no_policy (example_world 12)
     = (Inl (AssertionError (ExpectsDevice cuda0 (Device ''cpu'' None))), example_world 12)"
  using device_mismatch_exempts_meta[of "on_device (Device ''meta'' None) (example_param [3, 1])"
      example_module_info "example_mesh_info 2 1" None cuda0 no_policy "example_world 12"]
    device_mismatch_exempts_meta[of "on_device (Device ''cpu'' None) (example_param [3, 1])"
      example_module_info "example_mesh_info 2 1" None cuda0 no_policy "example_world 12"]
  by (simp add: on_device_def example_param_def example_tensor_def cuda0_def)

lemma slice_dim0_fields [simp]:
  "t_storage (slice_dim0 t k) = t_storage t"
  "t_offset (slice_dim0 t k) = t_offset t"
  "t_dtype (slice_dim0 t k) = t_dtype t"
  "t_device (slice_dim0 t k) = t_device t"
  "has_fsdp_pre_all_gather (slice_dim0 t k) = has_fsdp_pre_all_gather t"
  "has_fsdp_post_all_gather (slice_dim0 t k) = has_fsdp_post_all_gather t"
  by (simp_all add: slice_dim0_def split: list.splits)

text \<open>What a successful \<open>shard_and_register\<close> leaves: the parameter's fields and the heap.\<close>

lemma shard_and_register_Inr:
  assumes "shard_and_register param dev info mi pfmi layout sharded chunk0 w = (Inr p, w')"
  shows "post_forward_mesh_info p = pfmi" and "mesh_info p = mi" and "module_info p = info"
    and "orig_size p = t_size (local_tensor param)"
    and "is_dtensor p = (dtensor_spec param \<noteq> None)"
    and "sharded_state p = SHARDED" and "unsharded_param p = None"
    and "all_gather_outputs p = []" and "unsharded_inner_tensors p = []"
    and "sharded_param p = next_param w"
    and "t_storage (sharded_param_data p) = next_storage w"
    and "next_storage w' = Suc (next_storage w)" and "next_param w' = Suc (next_param w)"
    and "t_size (local_tensor (params w' (sharded_param p))) = sharded_size p"
    and "t_storage (local_tensor (params w' (sharded_param p))) = next_storage w"
    and "has_fsdp_pre_all_gather (local_tensor (params w' (sharded_param p)))
           = has_fsdp_pre_all_gather (local_tensor param)"
    and "has_fsdp_post_all_gather (local_tensor (params w' (sharded_param p)))
           = has_fsdp_post_all_gather (local_tensor param)"
    and "requires_grad (params w' (sharded_param p)) = requires_grad param"
  using assms
  by (auto simp: shard_and_register_def Let_def new_zeros_def new_storage_def view_flat_def
      to_sharded_dtensor_of_def new_Parameter_def requires_grad_set_def copy_bytes_def
      split: if_splits prod.splits sum.splits)

lemma init_sharded_param_Inr:
  assumes "init_sharded_param param dev info mi pfmi w = (Inr p, w')"
  obtains layout chunks where
    "chunk_with_empty (local_tensor param) (shard_mesh_size mi) = Inr chunks"
    "shard_mesh_rank mi < length chunks"
    "shard_and_register param dev info mi pfmi layout
       (chunks ! shard_mesh_rank mi) (chunks ! 0) w = (Inr p, w')"
  using assms by (auto simp: init_sharded_param_def Let_def split: if_splits sum.splits)

lemma init_sharded_post_forward_param_metadata_Inr:
  assumes "init_sharded_post_forward_param_metadata param p = Inr p1"
  shows "\<exists>a b. p1 = p\<lparr>sharded_post_forward_size := a, contiguous_sharded_post_forward_stride := b\<rparr>"
  using assms
  by (auto simp: init_sharded_post_forward_param_metadata_def Let_def
      split: option.splits sum.splits if_splits)

text \<open>
  C7. When the class of the parameter's tensor defines exactly one of the two hooks,
  construction fails, and with the assertion on the hooks once the shard is built; when
  it defines both and the padded sharded size differs from the size of the local shard,
  construction fails with the error on uneven sharding. Both come from the constructor:
  no parameter is returned. The shard is built when \<^verbatim>\<open>_init_sharded_param\<close> and, with a
  post-forward mesh, \<^verbatim>\<open>_init_sharded_post_forward_param_metadata\<close> return.
\<close>

theorem extension_hooks_checked_at_construction:
  "(has_fsdp_pre_all_gather (local_tensor param) \<noteq> has_fsdp_post_all_gather (local_tensor param)
      \<longrightarrow> (\<exists>e. fst (FSDPParam_init param info mi pfmi dev mp_policy w) = Inl e))
   \<and> (init_sharded_param param dev info mi pfmi w = (Inr p, w1)
        \<and> (if pfmi \<noteq> None then init_sharded_post_forward_param_metadata param p else Inr p) = Inr p1
      \<longrightarrow> (has_fsdp_pre_all_gather (local_tensor param) \<noteq> has_fsdp_post_all_gather (local_tensor param)
            \<longrightarrow> FSDPParam_init param info mi pfmi dev mp_policy w = (Inl (AssertionError BothHooks), w1))
        \<and> (has_fsdp_pre_all_gather (local_tensor param) \<and> has_fsdp_post_all_gather (local_tensor param)
              \<and> padded_sharded_param_size p \<noteq> sharded_size p
            \<longrightarrow> FSDPParam_init param info mi pfmi dev mp_policy w
                  = (Inl (NotImplementedError
                            (EvenSharding (t_size (local_tensor param)) (mesh_numel (mesh mi)))), w1))
        \<and> (has_fsdp_pre_all_gather (local_tensor param) = has_fsdp_post_all_gather (local_tensor param)
              \<and> (has_fsdp_pre_all_gather (local_tensor param)
                    \<longrightarrow> padded_sharded_param_size p = sharded_size p)
            \<longrightarrow> (\<exists>p2. FSDPParam_init param info mi pfmi dev mp_policy w = (Inr p2, w1))))"
proof -
  let ?pre = "has_fsdp_pre_all_gather (local_tensor param)"
  let ?post = "has_fsdp_post_all_gather (local_tensor param)"
  let ?init = "FSDPParam_init param info mi pfmi dev mp_policy w"
  have built: "?init = (case init_extensions \<lparr>self = p1, world = w1\<rparr> of
                          Inl e \<Rightarrow> (Inl e, w1)
                        | Inr p2 \<Rightarrow> (Inr (p2\<lparr>all_gather_outputs := [], param_fqn := None\<rparr>), w1))"
      and inner: "has_fsdp_pre_all_gather (sharded_local_tensor \<lparr>self = p1, world = w1\<rparr>) = ?pre"
                 "has_fsdp_post_all_gather (sharded_local_tensor \<lparr>self = p1, world = w1\<rparr>) = ?post"
                 "t_size (sharded_local_tensor \<lparr>self = p1, world = w1\<rparr>) = sharded_size p"
                 "padded_sharded_param_size p1 = padded_sharded_param_size p"
                 "orig_size p1 = t_size (local_tensor param)" "mesh_info p1 = mi"
    if ok: "init_sharded_param param dev info mi pfmi w = (Inr p, w1)"
      and pf: "(if pfmi \<noteq> None then init_sharded_post_forward_param_metadata param p else Inr p) = Inr p1"
    for p w1 p1
  proof -
    from ok obtain layout chunks where
      reg: "shard_and_register param dev info mi pfmi layout
              (chunks ! shard_mesh_rank mi) (chunks ! 0) w = (Inr p, w1)"
      by (rule init_sharded_param_Inr)
    note f = shard_and_register_Inr[OF reg]
    from pf obtain a b where
      p1: "p1 = p \<or> p1 = p\<lparr>sharded_post_forward_size := a, contiguous_sharded_post_forward_stride := b\<rparr>"
      using init_sharded_post_forward_param_metadata_Inr[of param p p1]
      by (auto split: if_splits)
    show "?init = (case init_extensions \<lparr>self = p1, world = w1\<rparr> of
                          Inl e \<Rightarrow> (Inl e, w1)
                        | Inr p2 \<Rightarrow> (Inr (p2\<lparr>all_gather_outputs := [], param_fqn := None\<rparr>), w1))"
      using ok pf f(1) by (simp add: FSDPParam_init_def)
    show "has_fsdp_pre_all_gather (sharded_local_tensor \<lparr>self = p1, world = w1\<rparr>) = ?pre"
      "has_fsdp_post_all_gather (sharded_local_tensor \<lparr>self = p1, world = w1\<rparr>) = ?post"
      "t_size (sharded_local_tensor \<lparr>self = p1, world = w1\<rparr>) = sharded_size p"
      "padded_sharded_param_size p1 = padded_sharded_param_size p"
      "orig_size p1 = t_size (local_tensor param)" "mesh_info p1 = mi"
      using p1 f by (auto simp: sharded_local_tensor_def)
  qed
  have fails: "\<exists>e. fst ?init = Inl e" if "?pre \<noteq> ?post"
  proof (cases "init_sharded_param param dev info mi pfmi w")
    case (Pair r w1)
    show ?thesis
    proof (cases r)
      case (Inl e)
      then show ?thesis using Pair by (simp add: FSDPParam_init_def)
    next
      case (Inr p)
      show ?thesis
      proof (cases "if pfmi \<noteq> None then init_sharded_post_forward_param_metadata param p else Inr p")
        case (Inl e)
        from Pair Inr obtain layout chunks where
          reg: "shard_and_register param dev info mi pfmi layout
                  (chunks ! shard_mesh_rank mi) (chunks ! 0) w = (Inr p, w1)"
          by (auto elim: init_sharded_param_Inr)
        show ?thesis using Pair Inr Inl shard_and_register_Inr(1)[OF reg]
          by (simp add: FSDPParam_init_def)
      next
        case (Inr p1)
        have ok: "init_sharded_param param dev info mi pfmi w = (Inr p, w1)"
          using Pair \<open>r = Inr p\<close> by simp
        show ?thesis
          using built[OF ok Inr] inner(1,2)[OF ok Inr] that
          by (simp add: init_extensions_def Let_def)
      qed
    qed
  qed
  show ?thesis
  proof (intro conjI impI)
    assume "?pre \<noteq> ?post"
    then show "\<exists>e. fst ?init = Inl e" by (rule fails)
  next
    assume a: "init_sharded_param param dev info mi pfmi w = (Inr p, w1)
        \<and> (if pfmi \<noteq> None then init_sharded_post_forward_param_metadata param p else Inr p) = Inr p1"
    assume "?pre \<noteq> ?post"
    then show "?init = (Inl (AssertionError BothHooks), w1)"
      using a built[of p w1 p1] inner(1,2)[of p w1 p1]
      by (simp add: init_extensions_def Let_def)
  next
    assume a: "init_sharded_param param dev info mi pfmi w = (Inr p, w1)
        \<and> (if pfmi \<noteq> None then init_sharded_post_forward_param_metadata param p else Inr p) = Inr p1"
    assume "?pre \<and> ?post \<and> padded_sharded_param_size p \<noteq> sharded_size p"
    then show "?init = (Inl (NotImplementedError
                            (EvenSharding (t_size (local_tensor param)) (mesh_numel (mesh mi)))), w1)"
      using a built[of p w1 p1] inner[of p w1 p1]
      by (simp add: init_extensions_def Let_def)
  next
    assume a: "init_sharded_param param dev info mi pfmi w = (Inr p, w1)
        \<and> (if pfmi \<noteq> None then init_sharded_post_forward_param_metadata param p else Inr p) = Inr p1"
    assume "?pre = ?post \<and> (?pre \<longrightarrow> padded_sharded_param_size p = sharded_size p)"
    then show "\<exists>p2. ?init = (Inr p2, w1)"
      using a built[of p w1 p1] inner[of p w1 p1]
      by (auto simp: init_extensions_def Let_def)
  qed
qed

lemma example_construction_3_1:
  "case init_sharded_param (with_hooks True False (example_param [3, 1])) cuda0 example_module_info
          (example_mesh_info 2 1) None (example_world 12) of
     (Inr p, w1) \<Rightarrow> True | (Inl e, w1) \<Rightarrow> False"
  "case init_sharded_param (with_hooks True True (example_param [3, 1])) cuda0 example_module_info
          (example_mesh_info 2 1) None (example_world 12) of
     (Inr p, w1) \<Rightarrow> padded_sharded_param_size p = [2, 1] \<and> sharded_size p = [1, 1]
   | (Inl e, w1) \<Rightarrow> False"
  by code_simp+

theorem extension_hooks_checked_at_construction_witness:
  "fst (FSDPParam_init (with_hooks True False (example_param [3, 1])) example_module_info
          (example_mesh_info 2 1) None cuda0 no_policy (example_world 12))
     = Inl (AssertionError BothHooks)
   \<and> fst (FSDPParam_init (with_hooks True True (example_param [3, 1])) example_module_info
          (example_mesh_info 2 1) None cuda0 no_policy (example_world 12))
     = Inl (NotImplementedError (EvenSharding [3, 1] 2))"
proof -
  obtain p w1 where ok:
    "init_sharded_param (with_hooks True False (example_param [3, 1])) cuda0 example_module_info
       (example_mesh_info 2 1) None (example_world 12) = (Inr p, w1)"
    using example_construction_3_1(1) by (auto split: prod.splits sum.splits)
  obtain q v1 where ok':
    "init_sharded_param (with_hooks True True (example_param [3, 1])) cuda0 example_module_info
       (example_mesh_info 2 1) None (example_world 12) = (Inr q, v1)"
    and uneven: "padded_sharded_param_size q = [2, 1]" "sharded_size q = [1, 1]"
    using example_construction_3_1(2) by (auto split: prod.splits sum.splits)
  have 1: "FSDPParam_init (with_hooks True False (example_param [3, 1])) example_module_info
          (example_mesh_info 2 1) None cuda0 no_policy (example_world 12)
        = (Inl (AssertionError BothHooks), w1)"
    using extension_hooks_checked_at_construction[of "with_hooks True False (example_param [3, 1])"
        example_module_info "example_mesh_info 2 1" None cuda0 no_policy "example_world 12" p w1 p] ok
    by (simp add: with_hooks_def)
  have 2: "FSDPParam_init (with_hooks True True (example_param [3, 1])) example_module_info
          (example_mesh_info 2 1) None cuda0 no_policy (example_world 12)
        = (Inl (NotImplementedError (EvenSharding [3, 1] 2)), v1)"
    using extension_hooks_checked_at_construction[of "with_hooks True True (example_param [3, 1])"
        example_module_info "example_mesh_info 2 1" None cuda0 no_policy "example_world 12" q v1 q]
      ok' uneven
    by (simp add: with_hooks_def example_param_def example_tensor_def example_mesh_info_def)
  show ?thesis unfolding 1 2 by simp
qed

section \<open>The state contract\<close>

text \<open>
  C4 (as amended). Reading \<^verbatim>\<open>all_gather_inputs\<close> in state \<^verbatim>\<open>UNSHARDED\<close> fails with
  the state assertion, which names the expected states and the actual one.
  \<^verbatim>\<open>to_sharded_post_forward\<close> in a state other than \<^verbatim>\<open>UNSHARDED\<close> fails with the same
  kind of assertion when the parameter is not a \<^verbatim>\<open>DTensor\<close>; for a \<^verbatim>\<open>DTensor\<close> it
  fails with \<^verbatim>\<open>NotImplementedError\<close>, raised before the state is looked at. No failure
  changes the state.
\<close>

theorem wrong_state_fails:
  "(sharded_state (self s) = UNSHARDED \<longrightarrow>
      all_gather_inputs ext s
        = (Inl (AssertionError (ExpectsStates [SHARDED, SHARDED_POST_FORWARD] UNSHARDED)), s))
   \<and> (sharded_state (self s) \<noteq> UNSHARDED \<and> \<not> is_dtensor (self s) \<longrightarrow>
        to_sharded_post_forward s
          = (Inl (AssertionError (ExpectsStates [UNSHARDED] (sharded_state (self s)))), s))
   \<and> (is_dtensor (self s) \<longrightarrow>
        to_sharded_post_forward s = (Inl (NotImplementedError ReshardTP), s))"
  by (simp add: all_gather_inputs_def to_sharded_post_forward_def assert_in_states_def
      raise_assert_with_print_def)

lemma example_sharded:
  "case example_state (example_param [3, 2]) (Some (example_hsdp_mesh_info 2 0)) 24 [] of
     Some s \<Rightarrow> sharded_state (self s) = SHARDED \<and> \<not> is_dtensor (self s)
   | None \<Rightarrow> False"
  by code_simp

lemma example_unsharded:
  "case example_state (example_param [3, 2]) (Some (example_hsdp_mesh_info 2 0)) 24
          [Init_all_gather_outputs [4] [float32] 2 cuda0, Init_unsharded_param, To_unsharded] of
     Some s \<Rightarrow> sharded_state (self s) = UNSHARDED
   | None \<Rightarrow> False"
  by code_simp

lemma example_dtensor_sharded:
  "case constructed (FSDPParam_init (example_dtensor_param [3, 2]) example_module_info
            (example_dp_mesh_info 2 0) None cuda0 no_policy (example_world 24)) of
     Some s \<Rightarrow> sharded_state (self s) = SHARDED \<and> is_dtensor (self s)
   | None \<Rightarrow> False"
  by code_simp

theorem wrong_state_fails_witness:
  "(case example_state (example_param [3, 2]) (Some (example_hsdp_mesh_info 2 0)) 24 [] of
      Some s \<Rightarrow>
        to_sharded_post_forward s = (Inl (AssertionError (ExpectsStates [UNSHARDED] SHARDED)), s)
    | None \<Rightarrow> False)
   \<and> (case example_state (example_param [3, 2]) (Some (example_hsdp_mesh_info 2 0)) 24
            [Init_all_gather_outputs [4] [float32] 2 cuda0, Init_unsharded_param, To_unsharded] of
        Some s \<Rightarrow>
          all_gather_inputs example_extension s
            = (Inl (AssertionError (ExpectsStates [SHARDED, SHARDED_POST_FORWARD] UNSHARDED)), s)
      | None \<Rightarrow> False)
   \<and> (case constructed (FSDPParam_init (example_dtensor_param [3, 2]) example_module_info
            (example_dp_mesh_info 2 0) None cuda0 no_policy (example_world 24)) of
        Some s \<Rightarrow> to_sharded_post_forward s = (Inl (NotImplementedError ReshardTP), s)
      | None \<Rightarrow> False)"
proof -
  from example_sharded obtain s where
    s: "example_state (example_param [3, 2]) (Some (example_hsdp_mesh_info 2 0)) 24 [] = Some s"
    and hs: "sharded_state (self s) = SHARDED" "\<not> is_dtensor (self s)"
    by (auto split: option.splits)
  from example_unsharded obtain u where
    u: "example_state (example_param [3, 2]) (Some (example_hsdp_mesh_info 2 0)) 24
          [Init_all_gather_outputs [4] [float32] 2 cuda0, Init_unsharded_param, To_unsharded] = Some u"
    and hu: "sharded_state (self u) = UNSHARDED"
    by (auto split: option.splits)
  from example_dtensor_sharded obtain d where
    d: "constructed (FSDPParam_init (example_dtensor_param [3, 2]) example_module_info
            (example_dp_mesh_info 2 0) None cuda0 no_policy (example_world 24)) = Some d"
    and hd: "is_dtensor (self d)"
    by (auto split: option.splits)
  have 1: "to_sharded_post_forward s = (Inl (AssertionError (ExpectsStates [UNSHARDED] SHARDED)), s)"
    using wrong_state_fails[of s] hs by simp
  have 2: "all_gather_inputs example_extension u
            = (Inl (AssertionError (ExpectsStates [SHARDED, SHARDED_POST_FORWARD] UNSHARDED)), u)"
    using wrong_state_fails[of u example_extension] hu by simp
  have 3: "to_sharded_post_forward d = (Inl (NotImplementedError ReshardTP), d)"
    using wrong_state_fails[of d] hd by simp
  show ?thesis unfolding s u d using 1 2 3 by simp
qed

lemma to_sharded_post_forward_dtensor_raises:
  "is_dtensor (self s) \<Longrightarrow> to_sharded_post_forward s = (Inl (NotImplementedError ReshardTP), s)"
  by (simp add: to_sharded_post_forward_def)

theorem wrong_state_counterexample:
  "case constructed (FSDPParam_init (example_dtensor_param [3, 2]) example_module_info
            (example_dp_mesh_info 2 0) None cuda0 no_policy (example_world 24)) of
     Some s \<Rightarrow>
       sharded_state (self s) = SHARDED
       \<and> to_sharded_post_forward s = (Inl (NotImplementedError ReshardTP), s)
       \<and> fst (to_sharded_post_forward s) \<noteq> Inl (AssertionError (ExpectsStates [UNSHARDED] SHARDED))
   | None \<Rightarrow> False"
proof -
  from example_dtensor_sharded obtain d where
    d: "constructed (FSDPParam_init (example_dtensor_param [3, 2]) example_module_info
            (example_dp_mesh_info 2 0) None cuda0 no_policy (example_world 24)) = Some d"
    and hd: "sharded_state (self d) = SHARDED" "is_dtensor (self d)"
    by (auto split: option.splits)
  show ?thesis unfolding d using hd to_sharded_post_forward_dtensor_raises[of d] by simp
qed

section \<open>Allocating and freeing the all-gather outputs\<close>

lemma free_storage_eq: "free_storage t w = w\<lparr>storages := (storages w)(t_storage t := [])\<rparr>"
proof (cases "length (storages w (t_storage t)) = 0")
  case True
  then have "(storages w)(t_storage t := []) = storages w" by (simp add: fun_eq_iff)
  then show ?thesis using True by (simp add: free_storage_def)
next
  case False
  then show ?thesis by (simp add: free_storage_def resize_storage_def)
qed

lemma fold_free_storage [simp]:
  "storages (fold free_storage ts w) sid
     = (if sid \<in> t_storage ` set ts then [] else storages w sid)"
  "next_storage (fold free_storage ts w) = next_storage w"
  "params (fold free_storage ts w) = params w"
  "next_param (fold free_storage ts w) = next_param w"
  "modules (fold free_storage ts w) = modules w"
  "requires_grad_calls (fold free_storage ts w) = requires_grad_calls w"
  by (induction ts arbitrary: w; simp add: free_storage_eq)+

lemma torch_empty_props:
  assumes "torch_empty shape dt dev w = (t, w1)"
  shows "t_size t = shape" "t_dtype t = dt" "t_device t = dev" "t_offset t = 0"
    "t_storage t = next_storage w" "next_storage w1 = Suc (next_storage w)"
    "storages w1 = (storages w)(next_storage w := replicate (prod_list shape * itemsize dt) 0)"
    "params w1 = params w" "next_param w1 = next_param w"
    "modules w1 = modules w" "requires_grad_calls w1 = requires_grad_calls w"
  using assms by (auto simp: torch_empty_def new_storage_def Let_def)

lemma torch_empty_each_props:
  assumes "torch_empty_each xs world_size dev w = (ts, w')"
  shows "length ts = length xs
       \<and> next_storage w' = next_storage w + length xs
       \<and> params w' = params w \<and> next_param w' = next_param w
       \<and> modules w' = modules w \<and> requires_grad_calls w' = requires_grad_calls w
       \<and> (\<forall>sid < next_storage w. storages w' sid = storages w sid)
       \<and> (\<forall>i < length xs. t_size (ts ! i) = [fst (xs ! i) * world_size]
             \<and> t_dtype (ts ! i) = snd (xs ! i) \<and> t_device (ts ! i) = dev \<and> t_offset (ts ! i) = 0
             \<and> t_storage (ts ! i) = next_storage w + i
             \<and> length (storages w' (next_storage w + i))
                 = fst (xs ! i) * world_size * itemsize (snd (xs ! i)))"
  using assms
proof (induction xs arbitrary: ts w w')
  case Nil
  then show ?case by simp
next
  case (Cons x xs)
  obtain n dt where x: "x = (n, dt)" by (cases x)
  obtain t w1 where t: "torch_empty [n * world_size] dt dev w = (t, w1)"
    by (cases "torch_empty [n * world_size] dt dev w")
  obtain ts1 w2 where r: "torch_empty_each xs world_size dev w1 = (ts1, w2)"
    by (cases "torch_empty_each xs world_size dev w1")
  have res: "ts = t # ts1" "w' = w2" using Cons.prems by (simp_all add: x t r)
  note h = torch_empty_props[OF t]
  note ih = Cons.IH[OF r]
  have keep: "storages w2 (next_storage w) = storages w1 (next_storage w)"
    using ih h(6) by simp
  have nth: "t_size (ts ! i) = [fst ((x # xs) ! i) * world_size]
             \<and> t_dtype (ts ! i) = snd ((x # xs) ! i) \<and> t_device (ts ! i) = dev \<and> t_offset (ts ! i) = 0
             \<and> t_storage (ts ! i) = next_storage w + i
             \<and> length (storages w' (next_storage w + i))
                 = fst ((x # xs) ! i) * world_size * itemsize (snd ((x # xs) ! i))"
    if "i < length (x # xs)" for i
  proof (cases i)
    case 0
    then show ?thesis using h keep by (simp add: res x)
  next
    case (Suc j)
    then have "j < length xs" using that by simp
    then show ?thesis using ih h(6) by (simp add: res Suc)
  qed
  have old: "storages w' sid = storages w sid" if "sid < next_storage w" for sid
    using that ih h(6,7) by (simp add: res)
  show ?case using ih h nth old by (simp add: res)
qed

lemma init_all_gather_outputs_noop:
  "all_gather_outputs (self s) \<noteq> [] \<Longrightarrow> init_all_gather_outputs numels dtypes world_size dev s = s"
  by (simp add: init_all_gather_outputs_def)

lemma free_unsharded_param_storages:
  "storages (world (free_unsharded_param s)) sid
     = (if sid \<in> t_storage ` set (all_gather_outputs (self s) @ unsharded_inner_tensors (self s))
        then [] else storages (world s) sid)"
  by (auto simp: free_unsharded_param_def)

lemma free_unsharded_param_frame [simp]:
  "self (free_unsharded_param s) = self s"
  "next_storage (world (free_unsharded_param s)) = next_storage (world s)"
  "params (world (free_unsharded_param s)) = params (world s)"
  "next_param (world (free_unsharded_param s)) = next_param (world s)"
  "modules (world (free_unsharded_param s)) = modules (world s)"
  "requires_grad_calls (world (free_unsharded_param s)) = requires_grad_calls (world s)"
  by (simp_all add: free_unsharded_param_def)

lemma free_unsharded_param_idem:
  "free_unsharded_param (free_unsharded_param s) = free_unsharded_param s"
proof (rule state.equality)
  show "world (free_unsharded_param (free_unsharded_param s)) = world (free_unsharded_param s)"
  proof (rule world.equality)
    show "storages (world (free_unsharded_param (free_unsharded_param s)))
            = storages (world (free_unsharded_param s))"
      by (rule ext) (simp only: free_unsharded_param_storages free_unsharded_param_frame if_cancel
          split: if_split, simp)
  qed simp_all
qed simp_all

text \<open>
  C8 (as amended). A call of \<^verbatim>\<open>init_all_gather_outputs\<close> that finds no output allocates
  one 1-D buffer per pair of the given numels and dtypes, of \<open>numel * world_size\<close>
  elements on a storage of its own; a call that finds an output is a no-op, whatever its
  arguments, and so is a second call with the arguments of the first. (A call that was
  given no pair leaves no output, so the next call allocates.) \<^verbatim>\<open>free_unsharded_param\<close>
  raises in no state, leaves every all-gather output and every inner tensor with a
  storage of size zero, and changes nothing when it is called again.
\<close>

theorem init_all_gather_outputs_idempotent:
  "(all_gather_outputs (self s) = [] \<longrightarrow>
      (let xs = zip numels dtypes;
           s' = init_all_gather_outputs numels dtypes world_size dev s
       in length (all_gather_outputs (self s')) = length xs
          \<and> (\<forall>i < length xs.
                t_size (all_gather_outputs (self s') ! i) = [fst (xs ! i) * world_size]
              \<and> t_dtype (all_gather_outputs (self s') ! i) = snd (xs ! i)
              \<and> t_device (all_gather_outputs (self s') ! i) = dev
              \<and> t_storage (all_gather_outputs (self s') ! i) = next_storage (world s) + i
              \<and> length (storages (world s') (t_storage (all_gather_outputs (self s') ! i)))
                  = fst (xs ! i) * world_size * itemsize (snd (xs ! i)))))
   \<and> (all_gather_outputs (self s) \<noteq> [] \<longrightarrow>
        init_all_gather_outputs numels' dtypes' world_size' dev' s = s)
   \<and> init_all_gather_outputs numels dtypes world_size dev
        (init_all_gather_outputs numels dtypes world_size dev s)
      = init_all_gather_outputs numels dtypes world_size dev s
   \<and> (\<forall>t \<in> set (all_gather_outputs (self (free_unsharded_param s))
                  @ unsharded_inner_tensors (self (free_unsharded_param s))).
         length (storages (world (free_unsharded_param s)) (t_storage t)) = 0)
   \<and> free_unsharded_param (free_unsharded_param s) = free_unsharded_param s"
proof (intro conjI impI)
  assume empty: "all_gather_outputs (self s) = []"
  obtain ts w' where r: "torch_empty_each (zip numels dtypes) world_size dev (world s) = (ts, w')"
    by (cases "torch_empty_each (zip numels dtypes) world_size dev (world s)")
  have s': "init_all_gather_outputs numels dtypes world_size dev s
              = \<lparr>self = (self s)\<lparr>all_gather_outputs := ts\<rparr>, world = w'\<rparr>"
    using empty r by (simp add: init_all_gather_outputs_def)
  show "let xs = zip numels dtypes;
           s' = init_all_gather_outputs numels dtypes world_size dev s
       in length (all_gather_outputs (self s')) = length xs
          \<and> (\<forall>i < length xs.
                t_size (all_gather_outputs (self s') ! i) = [fst (xs ! i) * world_size]
              \<and> t_dtype (all_gather_outputs (self s') ! i) = snd (xs ! i)
              \<and> t_device (all_gather_outputs (self s') ! i) = dev
              \<and> t_storage (all_gather_outputs (self s') ! i) = next_storage (world s) + i
              \<and> length (storages (world s') (t_storage (all_gather_outputs (self s') ! i)))
                  = fst (xs ! i) * world_size * itemsize (snd (xs ! i)))"
    unfolding Let_def s' using torch_empty_each_props[OF r] by simp
next
  assume "all_gather_outputs (self s) \<noteq> []"
  then show "init_all_gather_outputs numels' dtypes' world_size' dev' s = s"
    by (rule init_all_gather_outputs_noop)
next
  show "init_all_gather_outputs numels dtypes world_size dev
        (init_all_gather_outputs numels dtypes world_size dev s)
      = init_all_gather_outputs numels dtypes world_size dev s"
  proof (cases "all_gather_outputs (self s) = []")
    case False
    then show ?thesis by (simp add: init_all_gather_outputs_noop)
  next
    case True
    obtain ts w' where r: "torch_empty_each (zip numels dtypes) world_size dev (world s) = (ts, w')"
      by (cases "torch_empty_each (zip numels dtypes) world_size dev (world s)")
    have s': "init_all_gather_outputs numels dtypes world_size dev s
              = \<lparr>self = (self s)\<lparr>all_gather_outputs := ts\<rparr>, world = w'\<rparr>"
      using True r by (simp add: init_all_gather_outputs_def)
    show ?thesis
    proof (cases "ts = []")
      case False
      then show ?thesis unfolding s' by (simp add: init_all_gather_outputs_noop)
    next
      case nil: True
      from torch_empty_each_props[OF r] have "length ts = length (zip numels dtypes)" by blast
      with nil have z: "zip numels dtypes = []" by (metis length_0_conv)
      have "w' = world s" "ts = []" using r unfolding z by simp_all
      then have "init_all_gather_outputs numels dtypes world_size dev s = s"
        unfolding s' using True by simp
      then show ?thesis by simp
    qed
  qed
next
  show "\<forall>t \<in> set (all_gather_outputs (self (free_unsharded_param s))
                  @ unsharded_inner_tensors (self (free_unsharded_param s))).
         length (storages (world (free_unsharded_param s)) (t_storage t)) = 0"
    by (auto simp: free_unsharded_param_storages)
next
  show "free_unsharded_param (free_unsharded_param s) = free_unsharded_param s"
    by (rule free_unsharded_param_idem)
qed

lemma example_constructed_fresh:
  "case FSDPParam_init (example_param [3, 2]) example_module_info (example_mesh_info 2 0)
          (Some (example_hsdp_mesh_info 2 0)) cuda0 no_policy (example_world 24) of
     (Inr p, w) \<Rightarrow> all_gather_outputs p = [] \<and> unsharded_inner_tensors p = []
                   \<and> unsharded_param p = None
   | (Inl e, w) \<Rightarrow> False"
  by code_simp

theorem init_all_gather_outputs_idempotent_witness:
  "case constructed (FSDPParam_init (example_param [3, 2]) example_module_info (example_mesh_info 2 0)
            (Some (example_hsdp_mesh_info 2 0)) cuda0 no_policy (example_world 24)) of
     Some s \<Rightarrow>
       length (all_gather_outputs (self (init_all_gather_outputs [4] [float32] 2 cuda0 s))) = 1
       \<and> t_size (all_gather_outputs (self (init_all_gather_outputs [4] [float32] 2 cuda0 s)) ! 0) = [8]
       \<and> init_all_gather_outputs [9, 9] [float32, float32] 3 cuda0
            (init_all_gather_outputs [4] [float32] 2 cuda0 s)
          = init_all_gather_outputs [4] [float32] 2 cuda0 s
       \<and> free_unsharded_param (free_unsharded_param (init_all_gather_outputs [4] [float32] 2 cuda0 s))
          = free_unsharded_param (init_all_gather_outputs [4] [float32] 2 cuda0 s)
   | None \<Rightarrow> False"
proof -
  obtain p w where ok:
    "FSDPParam_init (example_param [3, 2]) example_module_info (example_mesh_info 2 0)
            (Some (example_hsdp_mesh_info 2 0)) cuda0 no_policy (example_world 24)
          = (Inr p, w)" and fresh: "all_gather_outputs p = []"
    using example_constructed_fresh by (auto split: prod.splits sum.splits)
  let ?s = "\<lparr>self = p, world = w\<rparr>"
  let ?s1 = "init_all_gather_outputs [4] [float32] 2 cuda0 ?s"
  note first = init_all_gather_outputs_idempotent[of ?s "[4]" "[float32]" 2 cuda0]
  have len: "length (all_gather_outputs (self ?s1)) = 1"
    and size: "t_size (all_gather_outputs (self ?s1) ! 0) = [8]"
    using first fresh by (simp_all add: Let_def)
  then have "all_gather_outputs (self ?s1) \<noteq> []" by auto
  then have noop: "init_all_gather_outputs [9, 9] [float32, float32] 3 cuda0 ?s1 = ?s1"
    using init_all_gather_outputs_idempotent[of ?s1 _ _ _ _ "[9, 9]" "[float32, float32]" 3 cuda0]
    by blast
  have free: "free_unsharded_param (free_unsharded_param ?s1) = free_unsharded_param ?s1"
    using init_all_gather_outputs_idempotent[of ?s1] by blast
  show ?thesis unfolding ok constructed_def using len size noop free by simp
qed

theorem init_all_gather_outputs_counterexample:
  "case constructed (FSDPParam_init (example_param [3, 2]) example_module_info (example_mesh_info 2 0)
            (Some (example_hsdp_mesh_info 2 0)) cuda0 no_policy (example_world 24)) of
     Some s \<Rightarrow>
       all_gather_outputs (self (init_all_gather_outputs [] [] 2 cuda0 s)) = []
       \<and> length (all_gather_outputs (self (init_all_gather_outputs [4] [float32] 2 cuda0
                    (init_all_gather_outputs [] [] 2 cuda0 s)))) = 1
       \<and> next_storage (world (init_all_gather_outputs [4] [float32] 2 cuda0
                    (init_all_gather_outputs [] [] 2 cuda0 s)))
          = Suc (next_storage (world (init_all_gather_outputs [] [] 2 cuda0 s)))
       \<and> init_all_gather_outputs [4] [float32] 2 cuda0 (init_all_gather_outputs [] [] 2 cuda0 s)
          \<noteq> init_all_gather_outputs [] [] 2 cuda0 s
   | None \<Rightarrow> False"
proof -
  obtain p w where ok:
    "FSDPParam_init (example_param [3, 2]) example_module_info (example_mesh_info 2 0)
            (Some (example_hsdp_mesh_info 2 0)) cuda0 no_policy (example_world 24)
          = (Inr p, w)" and fresh: "all_gather_outputs p = []"
    using example_constructed_fresh by (auto split: prod.splits sum.splits)
  let ?s = "\<lparr>self = p, world = w\<rparr>"
  let ?s0 = "init_all_gather_outputs [] [] 2 cuda0 ?s"
  let ?s1 = "init_all_gather_outputs [4] [float32] 2 cuda0 ?s0"
  have a: "all_gather_outputs (self ?s0) = []"
    using fresh by (simp add: init_all_gather_outputs_def)
  have b: "length (all_gather_outputs (self ?s1)) = 1"
    "next_storage (world ?s1) = Suc (next_storage (world ?s0))"
    using fresh by (simp_all add: init_all_gather_outputs_def torch_empty_def new_storage_def Let_def)
  have "all_gather_outputs (self ?s1) \<noteq> all_gather_outputs (self ?s0)" using a b by auto
  then have c: "?s1 \<noteq> ?s0" by auto
  show ?thesis unfolding ok constructed_def using a b c by simp
qed

section \<open>Binding to the modules\<close>

lemma unsafe_setattr_param_binds:
  "parameters (modules (unsafe_setattr_param m name q w) m') name'
     = (if m' = m \<and> name' = name then Some q else parameters (modules w m') name')"
  by (simp add: unsafe_setattr_param_def set_parameters_entry_def setattr_def)

lemma fold_unsafe_setattr_param_binds:
  "parameters (modules (fold (\<lambda>(m, name). unsafe_setattr_param m name q) xs w) m') name'
     = (if (m', name') \<in> set xs then Some q else parameters (modules w m') name')"
  by (induction xs arbitrary: w) (auto simp: unsafe_setattr_param_binds split: if_splits)

lemma setattr_on_modules_binds:
  "parameters (modules (setattr_on_modules info q w) m') name'
     = (if (m', name') = (module info, param_name info)
           \<or> (m', name') \<in> set (zip (shared_modules info) (shared_param_names info))
        then Some q else parameters (modules w m') name')"
  by (simp add: setattr_on_modules_def fold_unsafe_setattr_param_binds unsafe_setattr_param_binds)

lemma set_requires_grad_if_needed_props:
  "requires_grad (params (set_requires_grad_if_needed src dst w) dst) = requires_grad (params w src)"
  "requires_grad_calls (set_requires_grad_if_needed src dst w)
     = requires_grad_calls w
       + (if requires_grad (params w src) \<noteq> requires_grad (params w dst) then 1 else 0)"
  "storages (set_requires_grad_if_needed src dst w) = storages w"
  "next_storage (set_requires_grad_if_needed src dst w) = next_storage w"
  "next_param (set_requires_grad_if_needed src dst w) = next_param w"
  "modules (set_requires_grad_if_needed src dst w) = modules w"
  "local_tensor (params (set_requires_grad_if_needed src dst w) q) = local_tensor (params w q)"
  by (auto simp: set_requires_grad_if_needed_def requires_grad_set_def)

text \<open>
  C9. With the unsharded parameter constructed, \<^verbatim>\<open>to_unsharded\<close> returns; it binds the
  unsharded parameter under the parameter's name on the owning module and under every
  shared name on its shared module, in the one call; the unsharded parameter then
  requires gradients as the sharded one does, \<^verbatim>\<open>requires_grad_\<close> having been called once
  when the two flags differed and not at all when they agreed; coming from
  \<^verbatim>\<open>SHARDED_POST_FORWARD\<close> the post-forward parameter and its data are released; the
  state is \<^verbatim>\<open>UNSHARDED\<close>.
\<close>

theorem to_unsharded_rebinds:
  assumes "unsharded_param (self s) = Some u"
  shows "fst (to_unsharded s) = Inr ()
     \<and> (let s' = snd (to_unsharded s); info = module_info (self s)
        in parameters (modules (world s') (module info)) (param_name info) = Some u
         \<and> (\<forall>(m, name) \<in> set (zip (shared_modules info) (shared_param_names info)).
               parameters (modules (world s') m) name = Some u)
         \<and> requires_grad (params (world s') u)
             = requires_grad (params (world s) (sharded_param (self s)))
         \<and> requires_grad_calls (world s')
             = requires_grad_calls (world s)
               + (if requires_grad (params (world s) (sharded_param (self s)))
                     \<noteq> requires_grad (params (world s) u) then 1 else 0)
         \<and> (sharded_state (self s) = SHARDED_POST_FORWARD
              \<longrightarrow> sharded_post_forward_param (self s') = None
                \<and> sharded_post_forward_param_data (self s') = None)
         \<and> sharded_state (self s') = UNSHARDED
         \<and> unsharded_param (self s') = Some u)"
  using assms
  by (auto simp: to_unsharded_def Let_def setattr_on_modules_binds set_requires_grad_if_needed_props)

lemma example_unsharded_param:
  "case example_state (example_param [3, 2]) (Some (example_hsdp_mesh_info 2 0)) 24
          [Init_all_gather_outputs [4] [float32] 2 cuda0, Init_unsharded_param] of
     Some s \<Rightarrow> unsharded_param (self s) = Some (Suc 0)
              \<and> module_info (self s) = example_module_info
              \<and> sharded_state (self s) = SHARDED
   | None \<Rightarrow> False"
  by code_simp

theorem to_unsharded_rebinds_witness:
  "case example_state (example_param [3, 2]) (Some (example_hsdp_mesh_info 2 0)) 24
          [Init_all_gather_outputs [4] [float32] 2 cuda0, Init_unsharded_param] of
     Some s \<Rightarrow>
       fst (to_unsharded s) = Inr ()
       \<and> parameters (modules (world (snd (to_unsharded s))) 0) ''weight'' = Some (Suc 0)
       \<and> parameters (modules (world (snd (to_unsharded s))) (Suc 0)) ''w'' = Some (Suc 0)
       \<and> requires_grad (params (world (snd (to_unsharded s))) (Suc 0))
           = requires_grad (params (world s) (sharded_param (self s)))
       \<and> sharded_state (self (snd (to_unsharded s))) = UNSHARDED
   | None \<Rightarrow> False"
proof -
  from example_unsharded_param obtain s where
    s: "example_state (example_param [3, 2]) (Some (example_hsdp_mesh_info 2 0)) 24
          [Init_all_gather_outputs [4] [float32] 2 cuda0, Init_unsharded_param] = Some s"
    and u: "unsharded_param (self s) = Some (Suc 0)"
    and info: "module_info (self s) = example_module_info"
    by (auto split: option.splits)
  show ?thesis
    unfolding s
    using to_unsharded_rebinds[OF u]
    by (simp add: Let_def info example_module_info_def)
qed

section \<open>The all-gather inputs\<close>

lemma to_dtype_if_needed_props:
  "to_dtype_if_needed ext t None w = (t, w)"
  "t_dtype t = d \<Longrightarrow> to_dtype_if_needed ext t (Some d) w = (t, w)"
  "t_dtype (fst (to_dtype_if_needed ext t (Some d) w)) = d"
  "t_size (fst (to_dtype_if_needed ext t pd w)) = t_size t"
  "t_dtype t \<noteq> d \<Longrightarrow> t_storage (fst (to_dtype_if_needed ext t (Some d) w)) = next_storage w"
  by (auto simp: to_dtype_if_needed_def new_storage_def Let_def split: option.splits)

lemma all_gather_inputs_post_forward_hook:
  "sharded_state (self s) = SHARDED_POST_FORWARD \<Longrightarrow> has_fsdp_pre_all_gather (sharded_local_tensor s)
   \<Longrightarrow> all_gather_inputs ext s = (Inl (NotImplementedError NoMessage), s)"
  by (simp add: all_gather_inputs_def assert_in_states_def)

lemma all_gather_inputs_plain:
  assumes "sharded_state (self s) = SHARDED \<and> data = sharded_param_data (self s)
           \<or> sharded_state (self s) = SHARDED_POST_FORWARD
             \<and> sharded_post_forward_param_data (self s) = Some data"
      and "\<not> has_fsdp_pre_all_gather (sharded_local_tensor s)"
  shows "all_gather_inputs ext s =
     (case param_dtype (self s) of
        None \<Rightarrow> (Inl (AttributeError ''param_dtype''), s)
      | Some pd \<Rightarrow> (Inr [fst (to_dtype_if_needed ext data pd (world s))],
                    s\<lparr>world := snd (to_dtype_if_needed ext data pd (world s))\<rparr>))"
  using assms
  by (auto simp: all_gather_inputs_def assert_in_states_def case_prod_beta split: option.splits)

text \<open>
  C6 (as amended). Reading \<^verbatim>\<open>all_gather_inputs\<close> passes the state check in
  \<^verbatim>\<open>SHARDED\<close> and in \<^verbatim>\<open>SHARDED_POST_FORWARD\<close>. In \<^verbatim>\<open>SHARDED\<close>, a class with a
  pre-all-gather hook has the hook called: what it raises is raised, and else its
  tensors are returned flattened and their shapes and the metadata are recorded (in
  \<^verbatim>\<open>_extensions_data\<close>, which construction sets for such a class). A class without the
  hook gets the flat data of the shard: \<^verbatim>\<open>AttributeError\<close> while \<^verbatim>\<open>param_dtype\<close> is
  unset (\<^verbatim>\<open>init_dtype_attrs\<close> sets it), the very tensor when no cast is needed, and a
  cast copy of dtype \<^verbatim>\<open>param_dtype\<close> otherwise. In \<^verbatim>\<open>SHARDED_POST_FORWARD\<close>, a class
  with the hook gets \<^verbatim>\<open>NotImplementedError\<close> and the hook is not called; a class without
  it gets the post-forward data in place of the shard's, in the same way.
\<close>

theorem all_gather_inputs_by_state:
  "(sharded_state (self s) \<noteq> UNSHARDED \<longrightarrow>
      assert_in_states [SHARDED, SHARDED_POST_FORWARD] s = Inr ())
   \<and> (sharded_state (self s) = SHARDED \<and> has_fsdp_pre_all_gather (sharded_local_tensor s) \<longrightarrow>
        (case fsdp_pre_all_gather ext (sharded_local_tensor s) (mesh (mesh_info (self s))) (world s) of
           (Inl e, w1) \<Rightarrow> all_gather_inputs ext s = (Inl e, s\<lparr>world := w1\<rparr>)
         | (Inr (inputs, metadata), w1) \<Rightarrow>
             (case extensions_data (self s) of
                None \<Rightarrow>
                  all_gather_inputs ext s
                    = (Inl (AttributeError ''_extensions_data''), s\<lparr>world := w1\<rparr>)
              | Some ed \<Rightarrow>
                  all_gather_inputs ext s
                    = (Inr (map view_flat inputs),
                       \<lparr>self = (self s)\<lparr>extensions_data :=
                                  Some (ed\<lparr>all_gather_metadata := metadata,
                                           all_gather_input_sizes := map t_size inputs\<rparr>)\<rparr>,
                        world = w1\<rparr>))))
   \<and> ((sharded_state (self s) = SHARDED \<and> data = sharded_param_data (self s)
         \<or> sharded_state (self s) = SHARDED_POST_FORWARD
           \<and> sharded_post_forward_param_data (self s) = Some data)
        \<and> \<not> has_fsdp_pre_all_gather (sharded_local_tensor s) \<longrightarrow>
        (case param_dtype (self s) of
           None \<Rightarrow> all_gather_inputs ext s = (Inl (AttributeError ''param_dtype''), s)
         | Some pd \<Rightarrow>
             all_gather_inputs ext s
               = (Inr [fst (to_dtype_if_needed ext data pd (world s))],
                  s\<lparr>world := snd (to_dtype_if_needed ext data pd (world s))\<rparr>)
             \<and> (pd = None \<or> pd = Some (t_dtype data)
                  \<longrightarrow> all_gather_inputs ext s = (Inr [data], s))
             \<and> (\<forall>d. pd = Some d \<and> d \<noteq> t_dtype data
                  \<longrightarrow> t_dtype (fst (to_dtype_if_needed ext data pd (world s))) = d
                    \<and> t_size (fst (to_dtype_if_needed ext data pd (world s))) = t_size data
                    \<and> t_storage (fst (to_dtype_if_needed ext data pd (world s)))
                        = next_storage (world s))))
   \<and> (sharded_state (self s) = SHARDED_POST_FORWARD \<and> has_fsdp_pre_all_gather (sharded_local_tensor s)
      \<longrightarrow> all_gather_inputs ext s = (Inl (NotImplementedError NoMessage), s))"
proof (intro conjI impI)
  assume "sharded_state (self s) \<noteq> UNSHARDED"
  then show "assert_in_states [SHARDED, SHARDED_POST_FORWARD] s = Inr ()"
    by (cases "sharded_state (self s)") (simp_all add: assert_in_states_def)
next
  assume "sharded_state (self s) = SHARDED \<and> has_fsdp_pre_all_gather (sharded_local_tensor s)"
  then show "case fsdp_pre_all_gather ext (sharded_local_tensor s) (mesh (mesh_info (self s))) (world s) of
           (Inl e, w1) \<Rightarrow> all_gather_inputs ext s = (Inl e, s\<lparr>world := w1\<rparr>)
         | (Inr (inputs, metadata), w1) \<Rightarrow>
             (case extensions_data (self s) of
                None \<Rightarrow>
                  all_gather_inputs ext s
                    = (Inl (AttributeError ''_extensions_data''), s\<lparr>world := w1\<rparr>)
              | Some ed \<Rightarrow>
                  all_gather_inputs ext s
                    = (Inr (map view_flat inputs),
                       \<lparr>self = (self s)\<lparr>extensions_data :=
                                  Some (ed\<lparr>all_gather_metadata := metadata,
                                           all_gather_input_sizes := map t_size inputs\<rparr>)\<rparr>,
                        world = w1\<rparr>))"
    by (simp add: all_gather_inputs_def assert_in_states_def split: prod.splits sum.splits option.splits)
next
  assume a: "(sharded_state (self s) = SHARDED \<and> data = sharded_param_data (self s)
         \<or> sharded_state (self s) = SHARDED_POST_FORWARD
           \<and> sharded_post_forward_param_data (self s) = Some data)
        \<and> \<not> has_fsdp_pre_all_gather (sharded_local_tensor s)"
  have r: "all_gather_inputs ext s =
     (case param_dtype (self s) of
        None \<Rightarrow> (Inl (AttributeError ''param_dtype''), s)
      | Some pd \<Rightarrow> (Inr [fst (to_dtype_if_needed ext data pd (world s))],
                    s\<lparr>world := snd (to_dtype_if_needed ext data pd (world s))\<rparr>))"
    using a by (intro all_gather_inputs_plain) simp_all
  show "case param_dtype (self s) of
           None \<Rightarrow> all_gather_inputs ext s = (Inl (AttributeError ''param_dtype''), s)
         | Some pd \<Rightarrow>
             all_gather_inputs ext s
               = (Inr [fst (to_dtype_if_needed ext data pd (world s))],
                  s\<lparr>world := snd (to_dtype_if_needed ext data pd (world s))\<rparr>)
             \<and> (pd = None \<or> pd = Some (t_dtype data)
                  \<longrightarrow> all_gather_inputs ext s = (Inr [data], s))
             \<and> (\<forall>d. pd = Some d \<and> d \<noteq> t_dtype data
                  \<longrightarrow> t_dtype (fst (to_dtype_if_needed ext data pd (world s))) = d
                    \<and> t_size (fst (to_dtype_if_needed ext data pd (world s))) = t_size data
                    \<and> t_storage (fst (to_dtype_if_needed ext data pd (world s)))
                        = next_storage (world s))"
    unfolding r by (auto simp: to_dtype_if_needed_props split: option.splits)
next
  assume "sharded_state (self s) = SHARDED_POST_FORWARD \<and> has_fsdp_pre_all_gather (sharded_local_tensor s)"
  then show "all_gather_inputs ext s = (Inl (NotImplementedError NoMessage), s)"
    by (simp add: all_gather_inputs_post_forward_hook)
qed

lemma example_sharded_with_hooks:
  "case example_state (with_hooks True True (example_param [4, 2])) (Some (example_hsdp_mesh_info 2 0)) 32
          [Init_dtype_attrs no_policy] of
     Some s \<Rightarrow> sharded_state (self s) = SHARDED
              \<and> has_fsdp_pre_all_gather (sharded_local_tensor s)
              \<and> extensions_data (self s) \<noteq> None
   | None \<Rightarrow> False"
  by code_simp

lemma example_sharded_plain:
  "case example_state (example_param [4, 2]) (Some (example_hsdp_mesh_info 2 0)) 32
          [Init_dtype_attrs no_policy] of
     Some s \<Rightarrow> sharded_state (self s) = SHARDED
              \<and> \<not> has_fsdp_pre_all_gather (sharded_local_tensor s)
              \<and> param_dtype (self s) = Some None
   | None \<Rightarrow> False"
  by code_simp

lemma example_sharded_fresh:
  "case example_state (example_param [4, 2]) (Some (example_hsdp_mesh_info 2 0)) 32 [] of
     Some s \<Rightarrow> sharded_state (self s) = SHARDED
              \<and> \<not> has_fsdp_pre_all_gather (sharded_local_tensor s)
              \<and> param_dtype (self s) = None
   | None \<Rightarrow> False"
  by code_simp

lemma example_sharded_cast:
  "case example_state (example_param [4, 2]) (Some (example_hsdp_mesh_info 2 0)) 32
          [Init_dtype_attrs \<lparr>policy_param_dtype = Some bfloat16, policy_reduce_dtype = None\<rparr>] of
     Some s \<Rightarrow> sharded_state (self s) = SHARDED
              \<and> \<not> has_fsdp_pre_all_gather (sharded_local_tensor s)
              \<and> param_dtype (self s) = Some (Some bfloat16)
              \<and> t_dtype (sharded_param_data (self s)) = float32
   | None \<Rightarrow> False"
  by code_simp

lemma example_post_forward_with_hooks:
  "case example_state (with_hooks True True (example_param [4, 2])) (Some (example_hsdp_mesh_info 2 0)) 32
          [Init_dtype_attrs no_policy, All_gather_inputs, Init_all_gather_outputs [4] [float32] 2 cuda0,
           Init_unsharded_param, To_unsharded, To_sharded_post_forward] of
     Some s \<Rightarrow> sharded_state (self s) = SHARDED_POST_FORWARD
              \<and> has_fsdp_pre_all_gather (sharded_local_tensor s)
   | None \<Rightarrow> False"
  by code_simp

lemma example_post_forward_plain:
  "case example_state (example_param [4, 2]) (Some (example_hsdp_mesh_info 2 0)) 32
          [Init_dtype_attrs no_policy, Init_all_gather_outputs [4] [float32] 2 cuda0,
           Init_unsharded_param, To_unsharded, To_sharded_post_forward] of
     Some s \<Rightarrow> sharded_state (self s) = SHARDED_POST_FORWARD
              \<and> \<not> has_fsdp_pre_all_gather (sharded_local_tensor s)
              \<and> param_dtype (self s) = Some None
              \<and> (case sharded_post_forward_param_data (self s) of
                    Some data \<Rightarrow> t_storage data \<noteq> t_storage (sharded_param_data (self s))
                  | None \<Rightarrow> False)
   | None \<Rightarrow> False"
  by code_simp

theorem all_gather_inputs_by_state_witness:
  "(case example_state (with_hooks True True (example_param [4, 2])) (Some (example_hsdp_mesh_info 2 0)) 32
          [Init_dtype_attrs no_policy] of
     Some s \<Rightarrow> fst (all_gather_inputs example_extension s) = Inr [view_flat (sharded_local_tensor s)]
              \<and> map_option all_gather_input_sizes
                    (extensions_data (self (snd (all_gather_inputs example_extension s))))
                  = Some [t_size (sharded_local_tensor s)]
   | None \<Rightarrow> False)
   \<and> (case example_state (example_param [4, 2]) (Some (example_hsdp_mesh_info 2 0)) 32
          [Init_dtype_attrs no_policy] of
     Some s \<Rightarrow> all_gather_inputs example_extension s = (Inr [sharded_param_data (self s)], s)
   | None \<Rightarrow> False)
   \<and> (case example_state (example_param [4, 2]) (Some (example_hsdp_mesh_info 2 0)) 32 [] of
     Some s \<Rightarrow> all_gather_inputs example_extension s = (Inl (AttributeError ''param_dtype''), s)
   | None \<Rightarrow> False)
   \<and> (case example_state (example_param [4, 2]) (Some (example_hsdp_mesh_info 2 0)) 32
          [Init_dtype_attrs \<lparr>policy_param_dtype = Some bfloat16, policy_reduce_dtype = None\<rparr>] of
     Some s \<Rightarrow> (case fst (all_gather_inputs example_extension s) of
                   Inr [t] \<Rightarrow> t_dtype t = bfloat16 \<and> t_size t = t_size (sharded_param_data (self s))
                              \<and> t_storage t = next_storage (world s)
                 | _ \<Rightarrow> False)
   | None \<Rightarrow> False)
   \<and> (case example_state (with_hooks True True (example_param [4, 2])) (Some (example_hsdp_mesh_info 2 0)) 32
          [Init_dtype_attrs no_policy, All_gather_inputs, Init_all_gather_outputs [4] [float32] 2 cuda0,
           Init_unsharded_param, To_unsharded, To_sharded_post_forward] of
     Some s \<Rightarrow> all_gather_inputs example_extension s = (Inl (NotImplementedError NoMessage), s)
   | None \<Rightarrow> False)
   \<and> (case example_state (example_param [4, 2]) (Some (example_hsdp_mesh_info 2 0)) 32
          [Init_dtype_attrs no_policy, Init_all_gather_outputs [4] [float32] 2 cuda0,
           Init_unsharded_param, To_unsharded, To_sharded_post_forward] of
     Some s \<Rightarrow> (case sharded_post_forward_param_data (self s) of
                   Some data \<Rightarrow> all_gather_inputs example_extension s = (Inr [data], s)
                 | None \<Rightarrow> False)
   | None \<Rightarrow> False)"
proof -
  from example_sharded_with_hooks obtain a ed where
    a: "example_state (with_hooks True True (example_param [4, 2])) (Some (example_hsdp_mesh_info 2 0)) 32
          [Init_dtype_attrs no_policy] = Some a"
    and ha: "sharded_state (self a) = SHARDED"
      "has_fsdp_pre_all_gather (sharded_local_tensor a)"
      "extensions_data (self a) = Some ed"
    by (auto split: option.splits)
  from example_sharded_plain obtain b where
    b: "example_state (example_param [4, 2]) (Some (example_hsdp_mesh_info 2 0)) 32
          [Init_dtype_attrs no_policy] = Some b"
    and hb: "sharded_state (self b) = SHARDED"
      "\<not> has_fsdp_pre_all_gather (sharded_local_tensor b)"
      "param_dtype (self b) = Some None"
    by (auto split: option.splits)
  from example_sharded_fresh obtain c where
    c: "example_state (example_param [4, 2]) (Some (example_hsdp_mesh_info 2 0)) 32 [] = Some c"
    and hc: "sharded_state (self c) = SHARDED"
      "\<not> has_fsdp_pre_all_gather (sharded_local_tensor c)"
      "param_dtype (self c) = None"
    by (auto split: option.splits)
  from example_sharded_cast obtain d where
    d: "example_state (example_param [4, 2]) (Some (example_hsdp_mesh_info 2 0)) 32
          [Init_dtype_attrs \<lparr>policy_param_dtype = Some bfloat16, policy_reduce_dtype = None\<rparr>] = Some d"
    and hd: "sharded_state (self d) = SHARDED"
      "\<not> has_fsdp_pre_all_gather (sharded_local_tensor d)"
      "param_dtype (self d) = Some (Some bfloat16)"
      "t_dtype (sharded_param_data (self d)) = float32"
    by (auto split: option.splits)
  from example_post_forward_with_hooks obtain e where
    e: "example_state (with_hooks True True (example_param [4, 2])) (Some (example_hsdp_mesh_info 2 0)) 32
          [Init_dtype_attrs no_policy, All_gather_inputs, Init_all_gather_outputs [4] [float32] 2 cuda0,
           Init_unsharded_param, To_unsharded, To_sharded_post_forward] = Some e"
    and he: "sharded_state (self e) = SHARDED_POST_FORWARD"
      "has_fsdp_pre_all_gather (sharded_local_tensor e)"
    by (auto split: option.splits)
  from example_post_forward_plain obtain f data where
    f: "example_state (example_param [4, 2]) (Some (example_hsdp_mesh_info 2 0)) 32
          [Init_dtype_attrs no_policy, Init_all_gather_outputs [4] [float32] 2 cuda0,
           Init_unsharded_param, To_unsharded, To_sharded_post_forward] = Some f"
    and hf: "sharded_state (self f) = SHARDED_POST_FORWARD"
      "\<not> has_fsdp_pre_all_gather (sharded_local_tensor f)"
      "param_dtype (self f) = Some None"
      "sharded_post_forward_param_data (self f) = Some data"
    by (auto split: option.splits)
  have 1: "fst (all_gather_inputs example_extension a) = Inr [view_flat (sharded_local_tensor a)]
      \<and> map_option all_gather_input_sizes
            (extensions_data (self (snd (all_gather_inputs example_extension a))))
          = Some [t_size (sharded_local_tensor a)]"
    using all_gather_inputs_by_state[of a example_extension] ha
    by (simp add: example_extension_def)
  have 2: "all_gather_inputs example_extension b = (Inr [sharded_param_data (self b)], b)"
    using all_gather_inputs_by_state[of b example_extension "sharded_param_data (self b)"] hb
    by (simp add: to_dtype_if_needed_props)
  have 3: "all_gather_inputs example_extension c = (Inl (AttributeError ''param_dtype''), c)"
    using all_gather_inputs_by_state[of c example_extension "sharded_param_data (self c)"] hc
    by (simp add: to_dtype_if_needed_props)
  have 4: "case fst (all_gather_inputs example_extension d) of
             Inr [t] \<Rightarrow> t_dtype t = bfloat16 \<and> t_size t = t_size (sharded_param_data (self d))
                        \<and> t_storage t = next_storage (world d)
           | _ \<Rightarrow> False"
    using all_gather_inputs_by_state[of d example_extension "sharded_param_data (self d)"] hd
    by (simp add: to_dtype_if_needed_props)
  have 5: "all_gather_inputs example_extension e = (Inl (NotImplementedError NoMessage), e)"
    using all_gather_inputs_by_state[of e example_extension] he by blast
  have 6: "all_gather_inputs example_extension f = (Inr [data], f)"
    using all_gather_inputs_by_state[of f example_extension data] hf
    by (simp add: to_dtype_if_needed_props)
  show ?thesis unfolding a b c d e f using 1 2 3 4 5 6 hf(4) by simp
qed

text \<open>
  C6 as the specification states it: in \<^verbatim>\<open>SHARDED_POST_FORWARD\<close> the hook is called as
  in \<^verbatim>\<open>SHARDED\<close>, and a class without the hook gets the data of the shard. Neither
  holds: the first history ends in \<^verbatim>\<open>NotImplementedError\<close>, the second returns a tensor
  of another storage than the shard's.
\<close>

theorem all_gather_inputs_counterexample:
  "(case example_state (with_hooks True True (example_param [4, 2])) (Some (example_hsdp_mesh_info 2 0)) 32
          [Init_dtype_attrs no_policy, All_gather_inputs, Init_all_gather_outputs [4] [float32] 2 cuda0,
           Init_unsharded_param, To_unsharded, To_sharded_post_forward] of
     Some s \<Rightarrow> sharded_state (self s) = SHARDED_POST_FORWARD
              \<and> has_fsdp_pre_all_gather (sharded_local_tensor s)
              \<and> all_gather_inputs example_extension s = (Inl (NotImplementedError NoMessage), s)
   | None \<Rightarrow> False)
   \<and> (case example_state (example_param [4, 2]) (Some (example_hsdp_mesh_info 2 0)) 32
          [Init_dtype_attrs no_policy, Init_all_gather_outputs [4] [float32] 2 cuda0,
           Init_unsharded_param, To_unsharded, To_sharded_post_forward] of
     Some s \<Rightarrow> sharded_state (self s) = SHARDED_POST_FORWARD
              \<and> \<not> has_fsdp_pre_all_gather (sharded_local_tensor s)
              \<and> fst (all_gather_inputs example_extension s) \<noteq> Inr [sharded_param_data (self s)]
   | None \<Rightarrow> False)"
proof -
  from example_post_forward_with_hooks obtain e where
    e: "example_state (with_hooks True True (example_param [4, 2])) (Some (example_hsdp_mesh_info 2 0)) 32
          [Init_dtype_attrs no_policy, All_gather_inputs, Init_all_gather_outputs [4] [float32] 2 cuda0,
           Init_unsharded_param, To_unsharded, To_sharded_post_forward] = Some e"
    and he: "sharded_state (self e) = SHARDED_POST_FORWARD"
      "has_fsdp_pre_all_gather (sharded_local_tensor e)"
    by (auto split: option.splits)
  from example_post_forward_plain obtain f data where
    f: "example_state (example_param [4, 2]) (Some (example_hsdp_mesh_info 2 0)) 32
          [Init_dtype_attrs no_policy, Init_all_gather_outputs [4] [float32] 2 cuda0,
           Init_unsharded_param, To_unsharded, To_sharded_post_forward] = Some f"
    and hf: "sharded_state (self f) = SHARDED_POST_FORWARD"
      "\<not> has_fsdp_pre_all_gather (sharded_local_tensor f)"
      "param_dtype (self f) = Some None"
      "sharded_post_forward_param_data (self f) = Some data"
      "t_storage data \<noteq> t_storage (sharded_param_data (self f))"
    by (auto split: option.splits)
  have 1: "all_gather_inputs example_extension e = (Inl (NotImplementedError NoMessage), e)"
    using he by (rule all_gather_inputs_post_forward_hook)
  have 2: "fst (all_gather_inputs example_extension f) = Inr [data]"
    using all_gather_inputs_plain[of f data example_extension] hf
    by (simp add: to_dtype_if_needed_props)
  have 3: "data \<noteq> sharded_param_data (self f)" using hf(5) by auto
  show ?thesis unfolding e f using 1 2 3 he hf by simp
qed

section \<open>Resharding after forward\<close>

lemma to_sharded_post_forward_steps:
  assumes f: "\<not> is_dtensor (self s)" "sharded_state (self s) = UNSHARDED"
      "post_forward_mesh_info (self s) = Some pfmi" "all_gather_outputs (self s) = [output]"
      "sharded_post_forward_size (self s) = Some pfsize"
      "0 < shard_mesh_size pfmi" "numel output mod shard_mesh_size pfmi = 0"
    and r: "shard_mesh_rank pfmi < shard_mesh_size pfmi"
    and b: "(t_offset output + k * Suc (shard_mesh_rank pfmi)) * itemsize (t_dtype output)
            \<le> length (storages (world s) (t_storage output))"
    and z: "prod_list pfsize \<le> k"
    and k: "k = numel output div shard_mesh_size pfmi"
    and piece: "piece = output\<lparr>t_offset := t_offset output + k * shard_mesh_rank pfmi, t_size := [k]\<rparr>"
    and data: "data = piece\<lparr>t_storage := next_storage (world s), t_offset := 0\<rparr>"
    and w1: "w1 = (world s)\<lparr>storages := (storages (world s))
                                (next_storage (world s) := read_bytes (world s) piece),
                            next_storage := Suc (next_storage (world s))\<rparr>"
    and s1: "s1 = \<lparr>self = (self s)\<lparr>sharded_post_forward_param_data := Some data\<rparr>, world = w1\<rparr>"
  shows "length (read_bytes (world s) piece) = nbytes piece"
    and "to_sharded_post_forward s =
     (if \<not> is_HSDPMeshInfo pfmi then (Inl (AssertionError AssertFailed), s1)
      else if \<not> is_floating_point (t_dtype output) then (Inl (RuntimeError ''requires_grad''), s1)
      else
        (Inr (),
         (let pf = next_param (world s);
              w2 = w1\<lparr>params := (params w1)
                         (pf := \<lparr>local_tensor = data\<lparr>t_size := pfsize\<rparr>, requires_grad = True,
                                 dtensor_spec =
                                   Some \<lparr>spec_mesh = mesh pfmi, spec_placements = [Replicate, Shard 0],
                                         spec_size = global_size (self s),
                                         spec_stride = global_stride (self s)\<rparr>\<rparr>),
                      next_param := Suc pf\<rparr>;
              s2 = free_unsharded_param
                     \<lparr>self = (self s)\<lparr>sharded_post_forward_param_data := Some data,
                                        sharded_post_forward_param := Some pf\<rparr>,
                      world = setattr_on_modules (module_info (self s)) pf w2\<rparr>
          in s2\<lparr>self := (self s2)\<lparr>sharded_state := SHARDED_POST_FORWARD\<rparr>\<rparr>)))"
proof -
  let ?r = "shard_mesh_rank pfmi" and ?W = "shard_mesh_size pfmi"
  let ?z = "itemsize (t_dtype output)"
  have d: "k * ?W = numel output" using f(7) k by auto
  have "k * Suc ?r \<le> k * ?W" using r by (intro mult_le_mono2) simp
  then have "k * ?r + k \<le> numel output" using d by simp
  then have n: "narrow output (k * ?r) k = Inr piece"
    by (simp add: narrow_def piece)
  have nb: "nbytes piece = k * ?z" by (simp add: nbytes_def numel_def piece)
  have "k * ?z \<le> length (storages (world s) (t_storage output)) - (t_offset output + k * ?r) * ?z"
    using b by (simp add: algebra_simps)
  then show l: "length (read_bytes (world s) piece) = nbytes piece"
    by (simp add: read_bytes_def nb) (simp add: piece)
  have c: "clone piece (world s) = (Inr data, w1)"
    using l by (simp add: clone_def new_storage_def data w1)
  have "prod_list pfsize * ?z \<le> k * ?z" using z by (rule mult_le_mono1)
  then have a: "as_strided w1 data pfsize = Inr (data\<lparr>t_size := pfsize\<rparr>)"
    using l nb by (simp add: as_strided_def w1 data) (simp add: piece)
  have q: "to_sharded_post_forward_dtensor (self s1) (data\<lparr>t_size := pfsize\<rparr>)
            = (if \<not> is_HSDPMeshInfo pfmi then Inl (AssertionError AssertFailed)
               else Inr \<lparr>spec_mesh = mesh pfmi, spec_placements = [Replicate, Shard 0],
                         spec_size = global_size (self s), spec_stride = global_stride (self s)\<rparr>)"
    using f by (simp add: to_sharded_post_forward_dtensor_def s1)
  have t: "t_dtype (data\<lparr>t_size := pfsize\<rparr>) = t_dtype output" by (simp add: data piece)
  have np: "next_param w1 = next_param (world s)" by (simp add: w1)
  show "to_sharded_post_forward s =
     (if \<not> is_HSDPMeshInfo pfmi then (Inl (AssertionError AssertFailed), s1)
      else if \<not> is_floating_point (t_dtype output) then (Inl (RuntimeError ''requires_grad''), s1)
      else
        (Inr (),
         (let pf = next_param (world s);
              w2 = w1\<lparr>params := (params w1)
                         (pf := \<lparr>local_tensor = data\<lparr>t_size := pfsize\<rparr>, requires_grad = True,
                                 dtensor_spec =
                                   Some \<lparr>spec_mesh = mesh pfmi, spec_placements = [Replicate, Shard 0],
                                         spec_size = global_size (self s),
                                         spec_stride = global_stride (self s)\<rparr>\<rparr>),
                      next_param := Suc pf\<rparr>;
              s2 = free_unsharded_param
                     \<lparr>self = (self s)\<lparr>sharded_post_forward_param_data := Some data,
                                        sharded_post_forward_param := Some pf\<rparr>,
                      world = setattr_on_modules (module_info (self s)) pf w2\<rparr>
          in s2\<lparr>self := (self s2)\<lparr>sharded_state := SHARDED_POST_FORWARD\<rparr>\<rparr>)))"
    unfolding to_sharded_post_forward_def
    using f(1-4,6,7) n[unfolded k] c[unfolded k] 
    by (simp add: assert_in_states_def Let_def k[symmetric] f(5) a q[unfolded s1, simplified]
        new_Parameter_def t s1 np)
qed

text \<open>
  C5 (as amended). Called in state \<^verbatim>\<open>UNSHARDED\<close>, \<^verbatim>\<open>to_sharded_post_forward\<close> raises
  \<^verbatim>\<open>NotImplementedError\<close> for a \<^verbatim>\<open>DTensor\<close> parameter; an assertion error when no
  post-forward mesh is configured or the all-gather outputs are not exactly one; the
  divisibility assertion when the shard count does not divide the number of elements
  of the output; in all these the state is unchanged. Else, when the storage of the
  output holds this rank's slice and the post-forward size fits in the slice (and the
  ids of the storages in use are below the heap's counter), the slice is cloned into a
  storage of its own and stored as the post-forward data; the method then raises an
  assertion error when the post-forward mesh is no \<^verbatim>\<open>HSDPMeshInfo\<close>, and
  \<^verbatim>\<open>RuntimeError\<close> when the dtype is not floating (\<^verbatim>\<open>nn.Parameter\<close> requires gradients),
  both in state \<^verbatim>\<open>UNSHARDED\<close>; otherwise it returns, the post-forward parameter views
  the clone with the post-forward size, it is bound on the owning and the shared
  modules, every all-gather output and inner tensor has a storage of size 0, the
  clone keeps its bytes, and the state is \<^verbatim>\<open>SHARDED_POST_FORWARD\<close>.
\<close>

theorem to_sharded_post_forward_cases:
  assumes u: "sharded_state (self s) = UNSHARDED"
  shows "(is_dtensor (self s)
           \<longrightarrow> to_sharded_post_forward s = (Inl (NotImplementedError ReshardTP), s))
     \<and> (\<not> is_dtensor (self s)
          \<and> (post_forward_mesh_info (self s) = None \<or> length (all_gather_outputs (self s)) \<noteq> 1)
           \<longrightarrow> to_sharded_post_forward s = (Inl (AssertionError AssertFailed), s))
     \<and> (\<not> is_dtensor (self s) \<and> post_forward_mesh_info (self s) = Some pfmi
          \<and> all_gather_outputs (self s) = [output]
          \<and> 0 < shard_mesh_size pfmi \<and> numel output mod shard_mesh_size pfmi \<noteq> 0
           \<longrightarrow> to_sharded_post_forward s
                = (Inl (AssertionError (Divisible (numel output) (shard_mesh_size pfmi))), s))
     \<and> (\<not> is_dtensor (self s) \<and> post_forward_mesh_info (self s) = Some pfmi
          \<and> all_gather_outputs (self s) = [output]
          \<and> sharded_post_forward_size (self s) = Some pfsize
          \<and> 0 < shard_mesh_size pfmi \<and> numel output mod shard_mesh_size pfmi = 0
          \<and> shard_mesh_rank pfmi < shard_mesh_size pfmi
          \<and> (t_offset output + numel output div shard_mesh_size pfmi * Suc (shard_mesh_rank pfmi))
               * itemsize (t_dtype output) \<le> length (storages (world s) (t_storage output))
          \<and> prod_list pfsize \<le> numel output div shard_mesh_size pfmi
          \<and> (\<forall>t \<in> set (all_gather_outputs (self s) @ unsharded_inner_tensors (self s)).
                t_storage t < next_storage (world s))
           \<longrightarrow>
          (let k = numel output div shard_mesh_size pfmi;
               piece = output\<lparr>t_offset := t_offset output + k * shard_mesh_rank pfmi, t_size := [k]\<rparr>;
               data = piece\<lparr>t_storage := next_storage (world s), t_offset := 0\<rparr>;
               pf = next_param (world s);
               info = module_info (self s);
               s' = snd (to_sharded_post_forward s)
           in narrow output (k * shard_mesh_rank pfmi) k = Inr piece
            \<and> length (read_bytes (world s) piece) = nbytes piece
            \<and> sharded_post_forward_param_data (self s') = Some data
            \<and> (\<not> is_HSDPMeshInfo pfmi \<longrightarrow>
                  fst (to_sharded_post_forward s) = Inl (AssertionError AssertFailed)
                  \<and> sharded_state (self s') = UNSHARDED)
            \<and> (is_HSDPMeshInfo pfmi \<and> \<not> is_floating_point (t_dtype output) \<longrightarrow>
                  fst (to_sharded_post_forward s) = Inl (RuntimeError ''requires_grad'')
                  \<and> sharded_state (self s') = UNSHARDED)
            \<and> (is_HSDPMeshInfo pfmi \<and> is_floating_point (t_dtype output) \<longrightarrow>
                  fst (to_sharded_post_forward s) = Inr ()
                  \<and> read_bytes (world s') data = read_bytes (world s) piece
                  \<and> sharded_post_forward_param (self s') = Some pf
                  \<and> local_tensor (params (world s') pf) = data\<lparr>t_size := pfsize\<rparr>
                  \<and> requires_grad (params (world s') pf)
                  \<and> parameters (modules (world s') (module info)) (param_name info) = Some pf
                  \<and> (\<forall>(m, name) \<in> set (zip (shared_modules info) (shared_param_names info)).
                        parameters (modules (world s') m) name = Some pf)
                  \<and> (\<forall>t \<in> set (all_gather_outputs (self s') @ unsharded_inner_tensors (self s')).
                        storages (world s') (t_storage t) = [])
                  \<and> all_gather_outputs (self s') = all_gather_outputs (self s)
                  \<and> sharded_state (self s') = SHARDED_POST_FORWARD)))"
proof (intro conjI impI)
  assume "is_dtensor (self s)"
  then show "to_sharded_post_forward s = (Inl (NotImplementedError ReshardTP), s)"
    by (simp add: to_sharded_post_forward_def)
next
  assume a: "\<not> is_dtensor (self s)
    \<and> (post_forward_mesh_info (self s) = None \<or> length (all_gather_outputs (self s)) \<noteq> 1)"
  show "to_sharded_post_forward s = (Inl (AssertionError AssertFailed), s)"
  proof (cases "post_forward_mesh_info (self s)")
    case None
    then show ?thesis using a u by (simp add: to_sharded_post_forward_def assert_in_states_def)
  next
    case (Some mi)
    then have "length (all_gather_outputs (self s)) \<noteq> 1" using a by simp
    then show ?thesis using a u Some
      by (auto simp: to_sharded_post_forward_def assert_in_states_def split: list.splits)
  qed
next
  assume "\<not> is_dtensor (self s) \<and> post_forward_mesh_info (self s) = Some pfmi
          \<and> all_gather_outputs (self s) = [output]
          \<and> 0 < shard_mesh_size pfmi \<and> numel output mod shard_mesh_size pfmi \<noteq> 0"
  then show "to_sharded_post_forward s
                = (Inl (AssertionError (Divisible (numel output) (shard_mesh_size pfmi))), s)"
    using u
    by (simp add: to_sharded_post_forward_def assert_in_states_def raise_assert_with_print_def Let_def)
next
  assume h: "\<not> is_dtensor (self s) \<and> post_forward_mesh_info (self s) = Some pfmi
          \<and> all_gather_outputs (self s) = [output]
          \<and> sharded_post_forward_size (self s) = Some pfsize
          \<and> 0 < shard_mesh_size pfmi \<and> numel output mod shard_mesh_size pfmi = 0
          \<and> shard_mesh_rank pfmi < shard_mesh_size pfmi
          \<and> (t_offset output + numel output div shard_mesh_size pfmi * Suc (shard_mesh_rank pfmi))
               * itemsize (t_dtype output) \<le> length (storages (world s) (t_storage output))
          \<and> prod_list pfsize \<le> numel output div shard_mesh_size pfmi
          \<and> (\<forall>t \<in> set (all_gather_outputs (self s) @ unsharded_inner_tensors (self s)).
                t_storage t < next_storage (world s))"
  define k where "k = numel output div shard_mesh_size pfmi"
  define piece where
    "piece = output\<lparr>t_offset := t_offset output + k * shard_mesh_rank pfmi, t_size := [k]\<rparr>"
  define data where "data = piece\<lparr>t_storage := next_storage (world s), t_offset := 0\<rparr>"
  define w1 where
    "w1 = (world s)\<lparr>storages := (storages (world s))
                        (next_storage (world s) := read_bytes (world s) piece),
                    next_storage := Suc (next_storage (world s))\<rparr>"
  define s1 where
    "s1 = \<lparr>self = (self s)\<lparr>sharded_post_forward_param_data := Some data\<rparr>, world = w1\<rparr>"
  have f: "\<not> is_dtensor (self s)" "sharded_state (self s) = UNSHARDED"
      "post_forward_mesh_info (self s) = Some pfmi" "all_gather_outputs (self s) = [output]"
      "sharded_post_forward_size (self s) = Some pfsize"
      "0 < shard_mesh_size pfmi" "numel output mod shard_mesh_size pfmi = 0"
    using h u by simp_all
  have r: "shard_mesh_rank pfmi < shard_mesh_size pfmi" using h by simp
  have b: "(t_offset output + k * Suc (shard_mesh_rank pfmi)) * itemsize (t_dtype output)
            \<le> length (storages (world s) (t_storage output))"
    using h by (simp add: k_def)
  have z: "prod_list pfsize \<le> k" using h by (simp add: k_def)
  have fresh: "next_storage (world s)
      \<notin> t_storage ` set (all_gather_outputs (self s) @ unsharded_inner_tensors (self s))"
    using h by fastforce
  note st = to_sharded_post_forward_steps[OF f r b z k_def piece_def data_def w1_def s1_def]
  have l: "length (read_bytes (world s) piece) = nbytes piece" by (rule st(1))
  have nb: "nbytes (piece\<lparr>t_storage := next_storage (world s), t_offset := 0\<rparr>) = nbytes piece"
    by (simp add: nbytes_def numel_def)
  have d: "k * shard_mesh_size pfmi = numel output" using f(7) k_def by auto
  have "k * Suc (shard_mesh_rank pfmi) \<le> k * shard_mesh_size pfmi"
    using r by (intro mult_le_mono2) simp
  then have "k * shard_mesh_rank pfmi + k \<le> numel output" using d by simp
  then have n: "narrow output (k * shard_mesh_rank pfmi) k = Inr piece"
    by (simp add: narrow_def piece_def)
  have e1: "\<not> is_HSDPMeshInfo pfmi \<Longrightarrow> to_sharded_post_forward s = (Inl (AssertionError AssertFailed), s1)"
    using st(2) by simp
  have e2: "is_HSDPMeshInfo pfmi \<Longrightarrow> \<not> is_floating_point (t_dtype output)
    \<Longrightarrow> to_sharded_post_forward s = (Inl (RuntimeError ''requires_grad''), s1)"
    using st(2) by simp
  have rb: "take (nbytes piece) (read_bytes (world s) piece) = read_bytes (world s) piece"
    using l by simp
  have ok: "is_HSDPMeshInfo pfmi \<Longrightarrow> is_floating_point (t_dtype output) \<Longrightarrow>
      fst (to_sharded_post_forward s) = Inr ()
      \<and> sharded_post_forward_param_data (self (snd (to_sharded_post_forward s))) = Some data
      \<and> read_bytes (world (snd (to_sharded_post_forward s))) data = read_bytes (world s) piece
      \<and> sharded_post_forward_param (self (snd (to_sharded_post_forward s))) = Some (next_param (world s))
      \<and> local_tensor (params (world (snd (to_sharded_post_forward s))) (next_param (world s)))
          = data\<lparr>t_size := pfsize\<rparr>
      \<and> requires_grad (params (world (snd (to_sharded_post_forward s))) (next_param (world s)))
      \<and> parameters (modules (world (snd (to_sharded_post_forward s))) (module (module_info (self s))))
           (param_name (module_info (self s))) = Some (next_param (world s))
      \<and> (\<forall>(m, name) \<in> set (zip (shared_modules (module_info (self s)))
                                 (shared_param_names (module_info (self s)))).
            parameters (modules (world (snd (to_sharded_post_forward s))) m) name
              = Some (next_param (world s)))
      \<and> (\<forall>t \<in> set (all_gather_outputs (self (snd (to_sharded_post_forward s)))
                     @ unsharded_inner_tensors (self (snd (to_sharded_post_forward s)))).
            storages (world (snd (to_sharded_post_forward s))) (t_storage t) = [])
      \<and> all_gather_outputs (self (snd (to_sharded_post_forward s))) = all_gather_outputs (self s)
      \<and> sharded_state (self (snd (to_sharded_post_forward s))) = SHARDED_POST_FORWARD"
    using fresh rb
    by (auto simp: st(2) Let_def free_unsharded_param_storages setattr_on_modules_binds
        read_bytes_def nb w1_def data_def)
  show "let k = numel output div shard_mesh_size pfmi;
               piece = output\<lparr>t_offset := t_offset output + k * shard_mesh_rank pfmi, t_size := [k]\<rparr>;
               data = piece\<lparr>t_storage := next_storage (world s), t_offset := 0\<rparr>;
               pf = next_param (world s);
               info = module_info (self s);
               s' = snd (to_sharded_post_forward s)
           in narrow output (k * shard_mesh_rank pfmi) k = Inr piece
            \<and> length (read_bytes (world s) piece) = nbytes piece
            \<and> sharded_post_forward_param_data (self s') = Some data
            \<and> (\<not> is_HSDPMeshInfo pfmi \<longrightarrow>
                  fst (to_sharded_post_forward s) = Inl (AssertionError AssertFailed)
                  \<and> sharded_state (self s') = UNSHARDED)
            \<and> (is_HSDPMeshInfo pfmi \<and> \<not> is_floating_point (t_dtype output) \<longrightarrow>
                  fst (to_sharded_post_forward s) = Inl (RuntimeError ''requires_grad'')
                  \<and> sharded_state (self s') = UNSHARDED)
            \<and> (is_HSDPMeshInfo pfmi \<and> is_floating_point (t_dtype output) \<longrightarrow>
                  fst (to_sharded_post_forward s) = Inr ()
                  \<and> read_bytes (world s') data = read_bytes (world s) piece
                  \<and> sharded_post_forward_param (self s') = Some pf
                  \<and> local_tensor (params (world s') pf) = data\<lparr>t_size := pfsize\<rparr>
                  \<and> requires_grad (params (world s') pf)
                  \<and> parameters (modules (world s') (module info)) (param_name info) = Some pf
                  \<and> (\<forall>(m, name) \<in> set (zip (shared_modules info) (shared_param_names info)).
                        parameters (modules (world s') m) name = Some pf)
                  \<and> (\<forall>t \<in> set (all_gather_outputs (self s') @ unsharded_inner_tensors (self s')).
                        storages (world s') (t_storage t) = [])
                  \<and> all_gather_outputs (self s') = all_gather_outputs (self s)
                  \<and> sharded_state (self s') = SHARDED_POST_FORWARD)"
    unfolding Let_def k_def[symmetric] piece_def[symmetric] data_def[symmetric]
  proof (intro conjI impI)
    show "narrow output (k * shard_mesh_rank pfmi) k = Inr piece" by (rule n)
    show "length (read_bytes (world s) piece) = nbytes piece" by (rule l)
    show "sharded_post_forward_param_data (self (snd (to_sharded_post_forward s))) = Some data"
      using e1 e2 ok by (cases "is_HSDPMeshInfo pfmi"; cases "is_floating_point (t_dtype output)")
        (auto simp: s1_def)
  qed (use e1 e2 ok f(2) in \<open>auto simp: s1_def\<close>)
qed

lemma example_unsharded_dtensor:
  "case map_option (run example_extension
            [Init_all_gather_outputs [3] [float32] 2 cuda0, Init_unsharded_param, To_unsharded])
          (constructed (FSDPParam_init (example_dtensor_param [3, 2]) example_module_info
             (example_dp_mesh_info 2 0) None cuda0 no_policy (example_world 24))) of
     Some s \<Rightarrow> sharded_state (self s) = UNSHARDED \<and> is_dtensor (self s)
   | None \<Rightarrow> False"
  by code_simp

lemma example_unsharded_no_mesh:
  "case example_state (example_param [4, 2]) None 32
          [Init_all_gather_outputs [4] [float32] 2 cuda0, Init_unsharded_param, To_unsharded] of
     Some s \<Rightarrow> sharded_state (self s) = UNSHARDED \<and> \<not> is_dtensor (self s)
              \<and> post_forward_mesh_info (self s) = None
   | None \<Rightarrow> False"
  by code_simp

lemma example_unsharded_two_outputs:
  "case example_state (with_hooks True True (example_param [4, 2])) (Some (example_hsdp_mesh_info 2 1)) 32
          [Init_dtype_attrs no_policy, All_gather_inputs,
           Init_all_gather_outputs [4, 4] [float32, float32] 2 cuda0, Init_unsharded_param, To_unsharded] of
     Some s \<Rightarrow> sharded_state (self s) = UNSHARDED \<and> \<not> is_dtensor (self s)
              \<and> length (all_gather_outputs (self s)) = 2
   | None \<Rightarrow> False"
  by code_simp

lemma example_unsharded_100_3:
  "case example_state (example_param [3, 2]) (Some (example_hsdp_mesh_info 3 0)) 24
          [Init_all_gather_outputs [50] [float32] 2 cuda0, Init_unsharded_param, To_unsharded] of
     Some s \<Rightarrow> sharded_state (self s) = UNSHARDED \<and> \<not> is_dtensor (self s)
              \<and> post_forward_mesh_info (self s) = Some (example_hsdp_mesh_info 3 0)
              \<and> (case all_gather_outputs (self s) of [output] \<Rightarrow> numel output = 100 | _ \<Rightarrow> False)
   | None \<Rightarrow> False"
  by code_simp

lemma example_unsharded_ready:
  "case example_state (example_param [4, 2]) (Some (example_hsdp_mesh_info 2 1)) 32
          [Init_all_gather_outputs [4] [float32] 2 cuda0, Init_unsharded_param, To_unsharded] of
     Some s \<Rightarrow> sharded_state (self s) = UNSHARDED \<and> \<not> is_dtensor (self s)
              \<and> post_forward_mesh_info (self s) = Some (example_hsdp_mesh_info 2 1)
              \<and> sharded_post_forward_size (self s) = Some [2, 2]
              \<and> unsharded_inner_tensors (self s) = []
              \<and> next_storage (world s) = 3 \<and> next_param (world s) = 2
              \<and> module_info (self s) = example_module_info
              \<and> (case all_gather_outputs (self s) of
                    [output] \<Rightarrow> numel output = 8 \<and> t_offset output = 0 \<and> t_dtype output = float32
                                 \<and> t_storage output = 2
                                 \<and> length (storages (world s) (t_storage output)) = 32
                  | _ \<Rightarrow> False)
   | None \<Rightarrow> False"
  by code_simp

lemma example_unsharded_fsdp_mesh:
  "case example_state (example_param [4, 2]) (Some (example_mesh_info 2 0)) 32
          [Init_all_gather_outputs [4] [float32] 2 cuda0, Init_unsharded_param, To_unsharded] of
     Some s \<Rightarrow> sharded_state (self s) = UNSHARDED \<and> \<not> is_dtensor (self s)
              \<and> post_forward_mesh_info (self s) = Some (example_mesh_info 2 0)
              \<and> sharded_post_forward_size (self s) = Some [2, 2]
              \<and> unsharded_inner_tensors (self s) = []
              \<and> next_storage (world s) = 3 \<and> next_param (world s) = 2
              \<and> module_info (self s) = example_module_info
              \<and> (case all_gather_outputs (self s) of
                    [output] \<Rightarrow> numel output = 8 \<and> t_offset output = 0 \<and> t_dtype output = float32
                                 \<and> t_storage output = 2
                                 \<and> length (storages (world s) (t_storage output)) = 32
                  | _ \<Rightarrow> False)
   | None \<Rightarrow> False"
  by code_simp

theorem to_sharded_post_forward_cases_witness:
  "(case map_option (run example_extension
            [Init_all_gather_outputs [3] [float32] 2 cuda0, Init_unsharded_param, To_unsharded])
          (constructed (FSDPParam_init (example_dtensor_param [3, 2]) example_module_info
             (example_dp_mesh_info 2 0) None cuda0 no_policy (example_world 24))) of
     Some s \<Rightarrow> to_sharded_post_forward s = (Inl (NotImplementedError ReshardTP), s)
   | None \<Rightarrow> False)
   \<and> (case example_state (example_param [4, 2]) None 32
          [Init_all_gather_outputs [4] [float32] 2 cuda0, Init_unsharded_param, To_unsharded] of
     Some s \<Rightarrow> to_sharded_post_forward s = (Inl (AssertionError AssertFailed), s)
   | None \<Rightarrow> False)
   \<and> (case example_state (with_hooks True True (example_param [4, 2])) (Some (example_hsdp_mesh_info 2 1)) 32
          [Init_dtype_attrs no_policy, All_gather_inputs,
           Init_all_gather_outputs [4, 4] [float32, float32] 2 cuda0, Init_unsharded_param, To_unsharded] of
     Some s \<Rightarrow> to_sharded_post_forward s = (Inl (AssertionError AssertFailed), s)
   | None \<Rightarrow> False)
   \<and> (case example_state (example_param [3, 2]) (Some (example_hsdp_mesh_info 3 0)) 24
          [Init_all_gather_outputs [50] [float32] 2 cuda0, Init_unsharded_param, To_unsharded] of
     Some s \<Rightarrow> to_sharded_post_forward s = (Inl (AssertionError (Divisible 100 3)), s)
   | None \<Rightarrow> False)
   \<and> (case example_state (example_param [4, 2]) (Some (example_hsdp_mesh_info 2 1)) 32
          [Init_all_gather_outputs [4] [float32] 2 cuda0, Init_unsharded_param, To_unsharded] of
     Some s \<Rightarrow> fst (to_sharded_post_forward s) = Inr ()
              \<and> sharded_state (self (snd (to_sharded_post_forward s))) = SHARDED_POST_FORWARD
              \<and> sharded_post_forward_param (self (snd (to_sharded_post_forward s))) = Some 2
              \<and> parameters (modules (world (snd (to_sharded_post_forward s))) 0) ''weight'' = Some 2
              \<and> parameters (modules (world (snd (to_sharded_post_forward s))) 1) ''w'' = Some 2
              \<and> t_size (local_tensor (params (world (snd (to_sharded_post_forward s))) 2)) = [2, 2]
              \<and> t_storage (local_tensor (params (world (snd (to_sharded_post_forward s))) 2)) = 3
              \<and> storages (world (snd (to_sharded_post_forward s))) 2 = []
              \<and> (case sharded_post_forward_param_data (self (snd (to_sharded_post_forward s))) of
                    Some data \<Rightarrow>
                      t_storage data = 3
                      \<and> read_bytes (world (snd (to_sharded_post_forward s))) data
                          = drop 16 (storages (world s) 2)
                  | None \<Rightarrow> False)
   | None \<Rightarrow> False)
   \<and> (case example_state (example_param [4, 2]) (Some (example_mesh_info 2 0)) 32
          [Init_all_gather_outputs [4] [float32] 2 cuda0, Init_unsharded_param, To_unsharded] of
     Some s \<Rightarrow> fst (to_sharded_post_forward s) = Inl (AssertionError AssertFailed)
              \<and> sharded_state (self (snd (to_sharded_post_forward s))) = UNSHARDED
              \<and> sharded_post_forward_param_data (self (snd (to_sharded_post_forward s))) \<noteq> None
   | None \<Rightarrow> False)"
proof -
  from example_unsharded_dtensor obtain d where
    d: "map_option (run example_extension
            [Init_all_gather_outputs [3] [float32] 2 cuda0, Init_unsharded_param, To_unsharded])
          (constructed (FSDPParam_init (example_dtensor_param [3, 2]) example_module_info
             (example_dp_mesh_info 2 0) None cuda0 no_policy (example_world 24))) = Some d"
    and hd: "sharded_state (self d) = UNSHARDED"
      "is_dtensor (self d)"
    by (auto split: option.splits)
  from example_unsharded_no_mesh obtain n where
    n: "example_state (example_param [4, 2]) None 32
          [Init_all_gather_outputs [4] [float32] 2 cuda0, Init_unsharded_param, To_unsharded] = Some n"
    and hn: "sharded_state (self n) = UNSHARDED"
      "\<not> is_dtensor (self n)"
      "post_forward_mesh_info (self n) = None"
    by (auto split: option.splits)
  from example_unsharded_two_outputs obtain t where
    t: "example_state (with_hooks True True (example_param [4, 2])) (Some (example_hsdp_mesh_info 2 1)) 32
          [Init_dtype_attrs no_policy, All_gather_inputs,
           Init_all_gather_outputs [4, 4] [float32, float32] 2 cuda0, Init_unsharded_param, To_unsharded] = Some t"
    and ht: "sharded_state (self t) = UNSHARDED"
      "\<not> is_dtensor (self t)"
      "length (all_gather_outputs (self t)) = 2"
    by (auto split: option.splits)
  from example_unsharded_100_3 obtain v ov where
    v: "example_state (example_param [3, 2]) (Some (example_hsdp_mesh_info 3 0)) 24
          [Init_all_gather_outputs [50] [float32] 2 cuda0, Init_unsharded_param, To_unsharded] = Some v"
    and hv: "sharded_state (self v) = UNSHARDED"
      "\<not> is_dtensor (self v)"
      "post_forward_mesh_info (self v) = Some (example_hsdp_mesh_info 3 0)"
      "all_gather_outputs (self v) = [ov]"
      "numel ov = 100"
    by (auto split: option.splits list.splits)
  from example_unsharded_ready obtain r orr where
    r: "example_state (example_param [4, 2]) (Some (example_hsdp_mesh_info 2 1)) 32
          [Init_all_gather_outputs [4] [float32] 2 cuda0, Init_unsharded_param, To_unsharded] = Some r"
    and hr: "sharded_state (self r) = UNSHARDED"
      "\<not> is_dtensor (self r)"
      "post_forward_mesh_info (self r) = Some (example_hsdp_mesh_info 2 1)"
      "sharded_post_forward_size (self r) = Some [2, 2]"
      "unsharded_inner_tensors (self r) = []"
      "next_storage (world r) = 3"
      "next_param (world r) = 2"
      "module_info (self r) = example_module_info"
      "all_gather_outputs (self r) = [orr]"
      "numel orr = 8"
      "t_offset orr = 0"
      "t_dtype orr = float32"
      "t_storage orr = 2"
      "length (storages (world r) (t_storage orr)) = 32"
    by (auto split: option.splits list.splits)
  from example_unsharded_fsdp_mesh obtain f of' where
    f: "example_state (example_param [4, 2]) (Some (example_mesh_info 2 0)) 32
          [Init_all_gather_outputs [4] [float32] 2 cuda0, Init_unsharded_param, To_unsharded] = Some f"
    and hf: "sharded_state (self f) = UNSHARDED"
      "\<not> is_dtensor (self f)"
      "post_forward_mesh_info (self f) = Some (example_mesh_info 2 0)"
      "sharded_post_forward_size (self f) = Some [2, 2]"
      "unsharded_inner_tensors (self f) = []"
      "next_storage (world f) = 3"
      "next_param (world f) = 2"
      "module_info (self f) = example_module_info"
      "all_gather_outputs (self f) = [of']"
      "numel of' = 8"
      "t_offset of' = 0"
      "t_dtype of' = float32"
      "t_storage of' = 2"
      "length (storages (world f) (t_storage of')) = 32"
    by (auto split: option.splits list.splits)
  have 1: "to_sharded_post_forward d = (Inl (NotImplementedError ReshardTP), d)"
    using to_sharded_post_forward_cases[of d] hd by simp
  have 2: "to_sharded_post_forward n = (Inl (AssertionError AssertFailed), n)"
    using to_sharded_post_forward_cases[of n] hn by simp
  have 3: "to_sharded_post_forward t = (Inl (AssertionError AssertFailed), t)"
    using to_sharded_post_forward_cases[of t] ht by simp
  have 4: "to_sharded_post_forward v = (Inl (AssertionError (Divisible 100 3)), v)"
    using to_sharded_post_forward_cases[of v "example_hsdp_mesh_info 3 0" ov] hv
    by (simp add: example_hsdp_mesh_info_def example_mesh_info_def)
  have 5: "fst (to_sharded_post_forward r) = Inr ()
      \<and> sharded_state (self (snd (to_sharded_post_forward r))) = SHARDED_POST_FORWARD
      \<and> sharded_post_forward_param (self (snd (to_sharded_post_forward r))) = Some 2
      \<and> parameters (modules (world (snd (to_sharded_post_forward r))) 0) ''weight'' = Some 2
      \<and> parameters (modules (world (snd (to_sharded_post_forward r))) 1) ''w'' = Some 2
      \<and> t_size (local_tensor (params (world (snd (to_sharded_post_forward r))) 2)) = [2, 2]
      \<and> t_storage (local_tensor (params (world (snd (to_sharded_post_forward r))) 2)) = 3
      \<and> storages (world (snd (to_sharded_post_forward r))) 2 = []
      \<and> (case sharded_post_forward_param_data (self (snd (to_sharded_post_forward r))) of
                    Some data \<Rightarrow>
                      t_storage data = 3
                      \<and> read_bytes (world (snd (to_sharded_post_forward r))) data
                          = drop 16 (storages (world r) 2)
                  | None \<Rightarrow> False)"
    using to_sharded_post_forward_cases[of r "example_hsdp_mesh_info 2 1" orr "[2, 2]"] hr
    by (auto simp: example_hsdp_mesh_info_def example_mesh_info_def example_module_info_def Let_def
        read_bytes_def nbytes_def numel_def)
  have 6: "fst (to_sharded_post_forward f) = Inl (AssertionError AssertFailed)
      \<and> sharded_state (self (snd (to_sharded_post_forward f))) = UNSHARDED
      \<and> sharded_post_forward_param_data (self (snd (to_sharded_post_forward f))) \<noteq> None"
    using to_sharded_post_forward_cases[of f "example_mesh_info 2 0" of' "[2, 2]"] hf
    by (simp add: example_mesh_info_def Let_def)
  show ?thesis unfolding d n t v r f using 1 2 3 4 5 6 by simp
qed

text \<open>
  C5 as the specification states it: in state \<^verbatim>\<open>UNSHARDED\<close>, a parameter that is no
  \<^verbatim>\<open>DTensor\<close> and whose all-gather output the shard count divides is resharded. It is
  not when the post-forward mesh is the \<^verbatim>\<open>FSDPMeshInfo\<close> of the parameter itself: the
  method raises an assertion error, in state \<^verbatim>\<open>UNSHARDED\<close>, the clone already stored.
\<close>

theorem to_sharded_post_forward_counterexample:
  "case example_state (example_param [4, 2]) (Some (example_mesh_info 2 0)) 32
          [Init_all_gather_outputs [4] [float32] 2 cuda0, Init_unsharded_param, To_unsharded] of
     Some s \<Rightarrow> sharded_state (self s) = UNSHARDED \<and> \<not> is_dtensor (self s)
              \<and> (case (post_forward_mesh_info (self s), all_gather_outputs (self s)) of
                    (Some pfmi, [output]) \<Rightarrow>
                      0 < shard_mesh_size pfmi \<and> numel output mod shard_mesh_size pfmi = 0
                  | _ \<Rightarrow> False)
              \<and> fst (to_sharded_post_forward s) = Inl (AssertionError AssertFailed)
              \<and> sharded_state (self (snd (to_sharded_post_forward s))) = UNSHARDED
              \<and> sharded_post_forward_param_data (self (snd (to_sharded_post_forward s))) \<noteq> None
   | None \<Rightarrow> False"
  by code_simp

section \<open>The unsharded parameter is constructed once\<close>
















section \<open>The round trip of a shard\<close>





lemma fold_alloc_storage_frame [simp]:
  "next_storage (fold alloc_storage ts w) = next_storage w"
  "params (fold alloc_storage ts w) = params w"
  "next_param (fold alloc_storage ts w) = next_param w"
  "modules (fold alloc_storage ts w) = modules w"
  by (induction ts arbitrary: w; simp add: alloc_storage_def resize_storage_def Let_def)+
















end
